theory Spec2Isabelle
  imports Main "HOL-Library.Word" "HOL-Library.Sublist" "HOL-Library.Multiset"
begin

unbundle bit_operations_syntax

section \<open>Go library functions used by the signer\<close>

text \<open>
  Go strings and byte slices are byte sequences: \<open>string\<close> (a \<open>char list\<close>) here. A nil
  byte slice is distinguished from an empty one only where the code makes the
  difference visible (the CA chain of \<open>extractCAChain\<close>), and is then \<open>None\<close>.
\<close>

text \<open>\<open>strings.Join(parts, sep)\<close>.\<close>

fun Join :: "string list \<Rightarrow> string \<Rightarrow> string" where
  "Join [] sep = []"
| "Join [x] sep = x"
| "Join (x # y # ys) sep = x @ sep @ Join (y # ys) sep"

text \<open>
  \<open>strings.Index(s, sub)\<close>: the byte offset of the first occurrence of \<open>sub\<close> in \<open>s\<close>;
  Go's \<open>-1\<close> (no occurrence) is \<open>None\<close>.
\<close>

fun Index :: "string \<Rightarrow> string \<Rightarrow> nat option" where
  "Index [] sub = (if sub = [] then Some 0 else None)"
| "Index (c # s) sub =
     (if prefix sub (c # s) then Some 0 else map_option Suc (Index s sub))"

definition Contains :: "string \<Rightarrow> string \<Rightarrow> bool" where
  "Contains s sub = (Index s sub \<noteq> None)"

text \<open>
  \<open>strings.TrimSpace\<close> on the ASCII white space (tab, line feed, vertical tab, form feed,
  carriage return, space). Go also trims the multi-byte UTF-8 encodings of the other
  Unicode spaces; no property below depends on them.
\<close>

definition isSpace :: "char \<Rightarrow> bool" where
  "isSpace c = (c \<in> set [CHR 0x09, CHR 0x0A, CHR 0x0B, CHR 0x0C, CHR 0x0D, CHR '' ''])"

definition TrimSpace :: "string \<Rightarrow> string" where
  "TrimSpace s = rev (dropWhile isSpace (rev (dropWhile isSpace s)))"


text \<open>\<open>strings.ToUpper\<close> on ASCII letters.\<close>

definition toUpperChar :: "char \<Rightarrow> char" where
  "toUpperChar c =
     (case map_of (zip ''abcdefghijklmnopqrstuvwxyz'' ''ABCDEFGHIJKLMNOPQRSTUVWXYZ'') c of
        Some u \<Rightarrow> u
      | None \<Rightarrow> c)"

definition ToUpper :: "string \<Rightarrow> string" where
  "ToUpper s = map toUpperChar s"

text \<open>
  Decimal formatting, as \<open>fmt.Sprintf("%d", n)\<close> does it: no leading zeros, a minus sign
  for negative numbers.
\<close>

definition digitChar :: "nat \<Rightarrow> char" where
  "digitChar d = ''0123456789'' ! d"

fun digitsOf :: "nat \<Rightarrow> string" where
  "digitsOf n = (if n < 10 then [digitChar n] else digitsOf (n div 10) @ [digitChar (n mod 10)])"

declare digitsOf.simps [simp del]

definition Itoa :: "int \<Rightarrow> string" where
  "Itoa i = (if i < 0 then CHR ''-'' # digitsOf (nat (- i)) else digitsOf (nat i))"

text \<open>Go's \<open>int\<close> on the 64-bit platforms the controller is built for: read with \<open>sint\<close>.\<close>

type_synonym go_int = "64 word"

text \<open>Errors are the messages the code builds with \<open>fmt.Errorf\<close>; a nil dereference is a panic.\<close>

datatype error = Err string | Panic string

section \<open>Data model\<close>

text \<open>\<open>pkix.Name\<close>, the fields the signer reads.\<close>

record Name =
  CommonName :: string
  Organization :: "string list"
  OrganizationalUnit :: "string list"
  Locality :: "string list"
  Province :: "string list"
  Country :: "string list"

text \<open>
  \<open>x509.CertificateRequest\<close> as \<open>x509.ParseCertificateRequest\<close> returns it. The parser
  does not verify the request's self-signature; \<open>CheckSignature\<close> is what
  \<open>csr.CheckSignature()\<close> returns (\<open>None\<close> for a nil error).
\<close>

record CertificateRequest =
  Subject :: Name
  DNSNames :: "string list"
  IPAddresses :: "string list"
  URIs :: "string list"
  EmailAddresses :: "string list"
  PublicKey :: string
  CheckSignature :: "string option"

section \<open>Subject DN construction (PKISigner.buildSubjectDNSlash / buildSubjectDNComma)\<close>

text \<open>The \<open>parts\<close> slice of \<open>buildSubjectDNSlash\<close> just before \<open>strings.Join\<close>.\<close>

definition slashParts :: "CertificateRequest \<Rightarrow> string list" where
  "slashParts csr =
     (let parts = map (\<lambda>c. ''/C='' @ c) (Country (Subject csr))
                @ map (\<lambda>st. ''/ST='' @ st) (Province (Subject csr))
                @ map (\<lambda>l. ''/L='' @ l) (Locality (Subject csr))
                @ map (\<lambda>o'. ''/O='' @ o') (Organization (Subject csr))
                @ map (\<lambda>ou. ''/OU='' @ ou) (OrganizationalUnit (Subject csr));
          parts = (if CommonName (Subject csr) \<noteq> ''''
                   then parts @ [''/CN='' @ CommonName (Subject csr)] else parts)
      in if parts = [] \<and> DNSNames csr \<noteq> []
         then [''/CN='' @ hd (DNSNames csr)] else parts)"

definition buildSubjectDNSlash :: "CertificateRequest \<Rightarrow> string" where
  "buildSubjectDNSlash csr = Join (slashParts csr) ''''"

text \<open>The \<open>parts\<close> slice of \<open>buildSubjectDNComma\<close> just before \<open>strings.Join\<close>.\<close>

definition commaParts :: "CertificateRequest \<Rightarrow> string list" where
  "commaParts csr =
     (let parts = (if CommonName (Subject csr) \<noteq> ''''
                   then [''CN='' @ CommonName (Subject csr)] else []);
          parts = parts
                @ map (\<lambda>ou. ''OU='' @ ou) (OrganizationalUnit (Subject csr))
                @ map (\<lambda>o'. ''O='' @ o') (Organization (Subject csr))
                @ map (\<lambda>l. ''L='' @ l) (Locality (Subject csr))
                @ map (\<lambda>st. ''ST='' @ st) (Province (Subject csr))
                @ map (\<lambda>c. ''C='' @ c) (Country (Subject csr))
      in if parts = [] \<and> DNSNames csr \<noteq> []
         then [''CN='' @ hd (DNSNames csr)] else parts)"

definition buildSubjectDNComma :: "CertificateRequest \<Rightarrow> string" where
  "buildSubjectDNComma csr = Join (commaParts csr) '',''"

section \<open>PKI signer configuration (PKIConfig and its parts)\<close>

record PKIParameters =
  ParamFormat :: string
  NewCertParam :: string
  NewCertValue :: string
  RenewCertParam :: string
  RenewCertValue :: string
  SubjectParam :: string
  SubjectDNFormat :: string
  DNSPrefix :: string
  DNSStartIndex :: go_int
  DNSMaxCount :: go_int
  GetCertParam :: string
  GetKeyParam :: string
  GetCSRParam :: string

record PKIResponse =
  Format :: string
  CertificateField :: string
  ChainField :: string

record PKIAuth =
  AuthType :: string
  HeaderName :: string
  SecretRef :: string

record PKITLS =
  InsecureSkipVerify :: bool
  CASecretRef :: string

record PKIConfig =
  BaseURL :: string
  Method :: string
  Parameters :: PKIParameters
  Response :: PKIResponse
  Auth :: "PKIAuth option"
  TLS :: "PKITLS option"

text \<open>The \<open>http.Client\<close> settings \<open>NewPKISigner\<close> chooses (timeout in seconds).\<close>

record httpClient =
  Timeout :: nat
  TLSInsecureSkipVerify :: bool

record PKISigner =
  config :: PKIConfig
  client :: httpClient
  authToken :: string

definition NewPKISigner :: "PKIConfig \<Rightarrow> PKISigner" where
  "NewPKISigner cfg =
     \<lparr> config = cfg,
       client = \<lparr> Timeout = 60,
                  TLSInsecureSkipVerify =
                    (case TLS cfg of None \<Rightarrow> False | Some t \<Rightarrow> InsecureSkipVerify t) \<rparr>,
       authToken = '''' \<rparr>"


section \<open>The world outside the signer\<close>

text \<open>\<open>pem.Block\<close>.\<close>

record pemBlock =
  BlockType :: string
  BlockBytes :: string

record httpRequest =
  ReqMethod :: string
  ReqURL :: string
  ReqBody :: string
  ReqHeaders :: "(string \<times> string) list"

text \<open>
  An HTTP response as the client sees it: the status code, and what \<open>io.ReadAll\<close> on the
  body yields (the bytes, or a read error).
\<close>

record httpResponse =
  StatusCode :: nat
  RespBody :: "string + string"

text \<open>
  What the signer calls and does not implement: the PEM and X.509 decoders of the Go
  standard library, \<open>url.Values.Encode\<close>, the HTTP client (\<open>Inl\<close> is a transport error), the
  error \<open>http.NewRequest\<close> reports for a method and URL (\<open>None\<close> when it builds the
  request), and the order in which the runtime ranges over a map, which the language
  leaves unspecified: \<open>map_range m\<close> lists the keys of \<open>m\<close> in the order of one iteration.
\<close>

record world =
  pem_Decode :: "string \<Rightarrow> pemBlock option"
  x509_ParseCertificateRequest :: "string \<Rightarrow> string + CertificateRequest"
  url_Encode :: "(string \<rightharpoonup> string list) \<Rightarrow> string"
  http_NewRequest_error :: "string \<Rightarrow> string \<Rightarrow> string option"
  http_Do :: "httpRequest \<Rightarrow> string + httpResponse"
  map_range :: "(string \<rightharpoonup> string list) \<Rightarrow> string list"

text \<open>The runtime's side of \<open>range\<close> over a map: every key exactly once.\<close>

definition ranges_over :: "string list \<Rightarrow> (string \<rightharpoonup> string list) \<Rightarrow> bool" where
  "ranges_over ks m = (distinct ks \<and> set ks = dom m)"

section \<open>Request parameters (PKISigner.buildSubjectDN, buildRequestParams)\<close>

definition buildSubjectDN :: "PKISigner \<Rightarrow> CertificateRequest \<Rightarrow> string" where
  "buildSubjectDN s csr =
     (if SubjectDNFormat (Parameters (config s)) = ''slash''
      then buildSubjectDNSlash csr else buildSubjectDNComma csr)"

text \<open>\<open>url.Values.Set(key, value)\<close>: the key's values become the one value given.\<close>

definition Set :: "(string \<rightharpoonup> string list) \<Rightarrow> string \<Rightarrow> string \<Rightarrow> (string \<rightharpoonup> string list)" where
  "Set params key v = params(key \<mapsto> [v])"

text \<open>
  The loop \<open>for i, dns := range csr.DNSNames\<close> of \<open>buildRequestParams\<close>, from index \<open>i\<close> on
  the names still to visit; \<open>startIdx+i\<close> is Go's wrapping \<open>int\<close> addition.
\<close>

fun addDNSParams ::
  "string \<Rightarrow> go_int \<Rightarrow> go_int \<Rightarrow> nat \<Rightarrow> string list \<Rightarrow> (string \<rightharpoonup> string list)
     \<Rightarrow> (string \<rightharpoonup> string list)" where
  "addDNSParams pre startIdx maxCount i [] params = params"
| "addDNSParams pre startIdx maxCount i (dns # rest) params =
     (if sint maxCount \<le> int i then params
      else addDNSParams pre startIdx maxCount (Suc i) rest
             (Set params (pre @ Itoa (sint (startIdx + of_nat i))) dns))"

definition buildRequestParams :: "PKISigner \<Rightarrow> CertificateRequest \<Rightarrow> (string \<rightharpoonup> string list)" where
  "buildRequestParams s csr =
     (let cfg = Parameters (config s);
          params = Map.empty;
          params = (if NewCertParam cfg \<noteq> '''' then Set params (NewCertParam cfg) (NewCertValue cfg)
                    else params);
          subject = buildSubjectDN s csr;
          params = (if SubjectParam cfg \<noteq> '''' \<and> subject \<noteq> ''''
                    then Set params (SubjectParam cfg) subject else params);
          params = (if DNSNames csr \<noteq> [] \<and> DNSPrefix cfg \<noteq> ''''
                    then (let startIdx = (if DNSStartIndex cfg = 0 then 2 else DNSStartIndex cfg);
                              maxCount = (if DNSMaxCount cfg = 0 then 20 else DNSMaxCount cfg)
                          in addDNSParams (DNSPrefix cfg) startIdx maxCount 0 (DNSNames csr) params)
                    else params)
      in if GetCertParam cfg \<noteq> '''' then Set params (GetCertParam cfg) '''' else params)"

section \<open>Transport (PKISigner.addAuth, makeRequest, parseResponse)\<close>

text \<open>\<open>req.Header.Set\<close>: replaces the header's value.\<close>

definition HeaderSet :: "httpRequest \<Rightarrow> string \<Rightarrow> string \<Rightarrow> httpRequest" where
  "HeaderSet req k v = req\<lparr>ReqHeaders := (k, v) # filter (\<lambda>h. fst h \<noteq> k) (ReqHeaders req)\<rparr>"

definition addAuth :: "PKISigner \<Rightarrow> httpRequest \<Rightarrow> httpRequest" where
  "addAuth s req =
     (case Auth (config s) of
        None \<Rightarrow> req
      | Some a \<Rightarrow>
          if AuthType a = ''header''
          then (if authToken s \<noteq> '''' then HeaderSet req (HeaderName a) (authToken s) else req)
          else if AuthType a = ''basic''
          then (if authToken s \<noteq> '''' then HeaderSet req ''Authorization'' (''Basic '' @ authToken s)
                else req)
          else if AuthType a = ''bearer''
          then (if authToken s \<noteq> '''' then HeaderSet req ''Authorization'' (''Bearer '' @ authToken s)
                else req)
          else req)"

text \<open>
  One step of the loop \<open>for key, values := range params\<close> in the semicolon branch of
  \<open>makeRequest\<close>: what the key appends to \<open>parts\<close>.
\<close>

definition semicolonPart :: "(string \<rightharpoonup> string list) \<Rightarrow> string \<Rightarrow> string list" where
  "semicolonPart params key =
     (case params key of
        None \<Rightarrow> []
      | Some [] \<Rightarrow> []
      | Some (v # _) \<Rightarrow> if v \<noteq> '''' then [key @ ''='' @ v] else [key])"

text \<open>
  The request body of \<open>makeRequest\<close>. In the semicolon format the parts come in the
  order in which the runtime ranges over the parameter map.
\<close>

definition requestBody :: "world \<Rightarrow> PKISigner \<Rightarrow> (string \<rightharpoonup> string list) \<Rightarrow> string" where
  "requestBody w s params =
     (if ParamFormat (Parameters (config s)) = ''semicolon''
      then Join (concat (map (semicolonPart params) (map_range w params))) '';''
      else url_Encode w params)"

definition BEGIN_CERTIFICATE :: string where
  "BEGIN_CERTIFICATE = ''-----BEGIN CERTIFICATE-----''"

definition END_CERTIFICATE :: string where
  "END_CERTIFICATE = ''-----END CERTIFICATE-----''"

definition parseResponse :: "PKISigner \<Rightarrow> string \<Rightarrow> error + string" where
  "parseResponse s body =
     (let format = Format (Response (config s));
          format = (if format = '''' then ''pem'' else format)
      in if \<not> Contains body BEGIN_CERTIFICATE then Inl (Err ''no certificate in response'')
         else Inr body)"

text \<open>
  The first half of \<open>makeRequest\<close>: the request handed to the HTTP client. In the POST
  branch the code sets a header on the request before it looks at the error of
  \<open>http.NewRequest\<close>, which dereferences nil when there is one.
\<close>

definition newRequest :: "world \<Rightarrow> PKISigner \<Rightarrow> (string \<rightharpoonup> string list) \<Rightarrow> error + httpRequest" where
  "newRequest w s params =
     (let method = ToUpper (Method (config s));
          method = (if method = '''' then ''POST'' else method);
          body = requestBody w s params;
          semicolon = (ParamFormat (Parameters (config s)) = ''semicolon'')
      in if method = ''GET''
         then (let url = BaseURL (config s) @ ''?'' @ (if semicolon then body else url_Encode w params)
               in case http_NewRequest_error w ''GET'' url of
                    Some e \<Rightarrow> Inl (Err (''failed to create request: '' @ e))
                  | None \<Rightarrow>
                      Inr (addAuth s \<lparr> ReqMethod = ''GET'', ReqURL = url, ReqBody = '''',
                                        ReqHeaders = [] \<rparr>))
         else (case http_NewRequest_error w ''POST'' (BaseURL (config s)) of
                 Some e \<Rightarrow> Inl (Panic ''nil pointer dereference'')
               | None \<Rightarrow>
                   Inr (addAuth s
                          (HeaderSet
                             \<lparr> ReqMethod = ''POST'', ReqURL = BaseURL (config s), ReqBody = body,
                               ReqHeaders = [] \<rparr>
                             ''Content-Type''
                             (if semicolon then ''text/plain''
                              else ''application/x-www-form-urlencoded'')))))"

definition makeRequest :: "world \<Rightarrow> PKISigner \<Rightarrow> (string \<rightharpoonup> string list) \<Rightarrow> error + string" where
  "makeRequest w s params =
     (case newRequest w s params of
        Inl e \<Rightarrow> Inl e
      | Inr req \<Rightarrow>
          (case http_Do w req of
             Inl e \<Rightarrow> Inl (Err (''request failed: '' @ e))
           | Inr resp \<Rightarrow>
               (case RespBody resp of
                  Inl e \<Rightarrow> Inl (Err (''failed to read response: '' @ e))
                | Inr respBody \<Rightarrow>
                    if StatusCode resp \<noteq> 200
                    then Inl (Err (''PKI API error: '' @ Itoa (int (StatusCode resp)) @ '', '' @ respBody))
                    else parseResponse s respBody)))"

section \<open>CA chain extraction (PKISigner.extractCAChain)\<close>

text \<open>The \<open>for\<close> loop of \<open>extractCAChain\<close> on its three variables.\<close>

function extractLoop :: "string \<Rightarrow> bool \<Rightarrow> string list \<Rightarrow> string list" where
  "extractLoop remaining isFirst caCerts =
     (case Index remaining BEGIN_CERTIFICATE of
        None \<Rightarrow> caCerts
      | Some start \<Rightarrow>
          (case Index (drop start remaining) END_CERTIFICATE of
             None \<Rightarrow> caCerts
           | Some end' \<Rightarrow>
               (let cert = take (end' + length END_CERTIFICATE) (drop start remaining)
                in extractLoop (drop (start + end' + length END_CERTIFICATE) remaining) False
                     (if \<not> isFirst then caCerts @ [TrimSpace cert] else caCerts))))"
  by pat_completeness auto

termination
proof (relation "measure (\<lambda>(remaining, isFirst, caCerts). length remaining)")
  show "wf (measure (\<lambda>(remaining, isFirst, caCerts). length remaining))"
    by simp
next
  fix remaining :: string and isFirst :: bool and caCerts :: "string list"
    and start end' :: nat and cert :: string
  assume s: "Index remaining BEGIN_CERTIFICATE = Some start"
    and e: "Index (drop start remaining) END_CERTIFICATE = Some end'"
  have bound: "i + length sub \<le> length s" if "Index s sub = Some i" for s sub i
    using that
  proof (induction s arbitrary: i)
    case Nil
    then show ?case by (simp split: if_splits)
  next
    case (Cons c s)
    then show ?case by (auto split: if_splits dest: prefix_length_le)
  qed
  from bound [OF e] have "start + end' + length END_CERTIFICATE \<le> length remaining"
    using bound [OF s] by simp
  then have "length (drop (start + end' + length END_CERTIFICATE) remaining) < length remaining"
    by (simp add: END_CERTIFICATE_def)
  then show "((drop (start + end' + length END_CERTIFICATE) remaining, False,
               if \<not> isFirst then caCerts @ [TrimSpace cert] else caCerts),
              remaining, isFirst, caCerts)
             \<in> measure (\<lambda>(remaining, isFirst, caCerts). length remaining)"
    by simp
qed

declare extractLoop.simps [simp del]

text \<open>The nil chain of the code is \<open>None\<close>.\<close>

definition extractCAChain :: "string \<Rightarrow> string option" where
  "extractCAChain fullChain =
     (let caCerts = extractLoop fullChain True []
      in if caCerts = [] then None else Some (Join caCerts [CHR 0x0A]))"

section \<open>PKISigner.CheckHealth and PKISigner.Sign\<close>

definition PKISigner_CheckHealth :: "world \<Rightarrow> PKISigner \<Rightarrow> error option" where
  "PKISigner_CheckHealth w s =
     (case http_NewRequest_error w ''GET'' (BaseURL (config s)) of
        Some e \<Rightarrow> Some (Err (''failed to create health check request: '' @ e))
      | None \<Rightarrow>
          (case http_Do w (addAuth s \<lparr> ReqMethod = ''GET'', ReqURL = BaseURL (config s),
                                       ReqBody = '''', ReqHeaders = [] \<rparr>) of
             Inl e \<Rightarrow> Some (Err (''failed to connect to PKI API: '' @ e))
           | Inr resp \<Rightarrow>
               if 500 \<le> StatusCode resp
               then Some (Err (''PKI API error: '' @ Itoa (int (StatusCode resp)) @ '', ''
                               @ (case RespBody resp of Inl _ \<Rightarrow> '''' | Inr b \<Rightarrow> b)))
               else None))"

text \<open>
  \<open>PKISigner.Sign\<close> returns the certificate bytes and the CA chain, or an error with
  both nil. \<open>validityDays\<close> is not used by this signer.
\<close>

definition PKISigner_Sign ::
  "world \<Rightarrow> PKISigner \<Rightarrow> string \<Rightarrow> int \<Rightarrow> error + (string \<times> string option)" where
  "PKISigner_Sign w s csrPEM validityDays =
     (case pem_Decode w csrPEM of
        None \<Rightarrow> Inl (Err ''invalid CSR PEM'')
      | Some block \<Rightarrow>
          if BlockType block \<noteq> ''CERTIFICATE REQUEST'' then Inl (Err ''invalid CSR PEM'')
          else (case x509_ParseCertificateRequest w (BlockBytes block) of
                  Inl e \<Rightarrow> Inl (Err (''failed to parse CSR: '' @ e))
                | Inr csr \<Rightarrow>
                    (let params = buildRequestParams s csr
                     in case makeRequest w s params of
                          Inl e \<Rightarrow> Inl e
                        | Inr certPEM \<Rightarrow> Inr (certPEM, extractCAChain certPEM))))"

section \<open>Certificates, time and the X.509 library\<close>

text \<open>
  A \<open>time.Time\<close> is an instant, in nanoseconds since the Unix epoch; a \<open>time.Duration\<close> is a
  number of nanoseconds. Both are unbounded integers here.
\<close>

definition Second :: int where
  "Second = 1000000000"

definition Minute :: int where
  "Minute = 60 * Second"

definition Hour :: int where
  "Hour = 60 * Minute"

text \<open>\<open>x509.KeyUsage\<close> and \<open>x509.ExtKeyUsage\<close>, with the values of the Go standard library.\<close>

definition KeyUsageDigitalSignature :: int where
  "KeyUsageDigitalSignature = 1"

definition KeyUsageKeyEncipherment :: int where
  "KeyUsageKeyEncipherment = 4"

definition KeyUsageCertSign :: int where
  "KeyUsageCertSign = 32"

definition KeyUsageCRLSign :: int where
  "KeyUsageCRLSign = 64"

definition ExtKeyUsageServerAuth :: int where
  "ExtKeyUsageServerAuth = 1"

definition ExtKeyUsageClientAuth :: int where
  "ExtKeyUsageClientAuth = 2"

text \<open>\<open>x509.Certificate\<close>, the fields the templates set.\<close>

record Certificate =
  SerialNumber :: int
  CertSubject :: Name
  NotBefore :: int
  NotAfter :: int
  KeyUsage :: int
  ExtKeyUsage :: "int list"
  BasicConstraintsValid :: bool
  IsCA :: bool
  MaxPathLen :: int
  CertDNSNames :: "string list"
  CertIPAddresses :: "string list"
  CertURIs :: "string list"
  CertEmailAddresses :: "string list"

text \<open>
  The library calls of the Mock CA: \<open>x509.CreateCertificate\<close> on a template, the parent
  certificate, the subject's public key and the signer's private key (an error or the
  DER bytes), \<open>x509.ParseCertificate\<close>, \<open>pem.EncodeToMemory\<close> on a block type and bytes,
  \<open>x509.MarshalPKCS1PrivateKey\<close>, the public half of an RSA key, and the calendar:
  \<open>AddYearsMonths t y m\<close> is \<open>t.AddDate(y, m, 0)\<close>.
\<close>

record x509lib =
  x509_CreateCertificate :: "Certificate \<Rightarrow> Certificate \<Rightarrow> string \<Rightarrow> string \<Rightarrow> string + string"
  x509_ParseCertificate :: "string \<Rightarrow> string + Certificate"
  pem_EncodeToMemory :: "string \<Rightarrow> string \<Rightarrow> string"
  x509_MarshalPKCS1PrivateKey :: "string \<Rightarrow> string"
  rsa_PublicKey :: "string \<Rightarrow> string"
  AddYearsMonths :: "int \<Rightarrow> int \<Rightarrow> int \<Rightarrow> int"

text \<open>
  \<open>t.AddDate(years, months, days)\<close> in a location without zone transitions (UTC, the
  zone of the controller's container): the days are whole days of 24 hours.
\<close>

definition AddDate :: "x509lib \<Rightarrow> int \<Rightarrow> int \<Rightarrow> int \<Rightarrow> int \<Rightarrow> int" where
  "AddDate lib t years months days =
     (if years = 0 \<and> months = 0 then t else AddYearsMonths lib t years months) + days * (24 * Hour)"

definition errorString :: "error \<Rightarrow> string" where
  "errorString e = (case e of Err m \<Rightarrow> m | Panic m \<Rightarrow> m)"

section \<open>Mock CA signer (MockCASigner)\<close>

record MockCASigner =
  caCert :: "Certificate option"
  caKey :: "string option"
  caPEM :: string
  caKeyPEM :: string
  generated :: bool


text \<open>
  What the outside gives to one run of \<open>ensureCA\<close>, in call order: the result of
  \<open>generateRSAKey\<close> (an error or the key), the result of \<open>generateSerialNumber\<close>
  (\<open>rand.Int\<close> below \<open>2^128\<close>), and the two readings of \<open>time.Now()\<close>.
\<close>

record ensureCA_effects =
  ca_key :: "string + string"
  ca_serial :: "string + int"
  ca_now1 :: int
  ca_now2 :: int

definition ensureCA :: "x509lib \<Rightarrow> ensureCA_effects \<Rightarrow> MockCASigner \<Rightarrow> error option \<times> MockCASigner" where
  "ensureCA lib eff s =
     (if generated s then (None, s)
      else case ca_key eff of
        Inl e \<Rightarrow> (Some (Err (''failed to generate CA key: '' @ e)), s)
      | Inr caPrivKey \<Rightarrow>
         (case ca_serial eff of
            Inl e \<Rightarrow> (Some (Err (''failed to generate serial: '' @ e)), s)
          | Inr serialNumber \<Rightarrow>
             (let caTemplate =
                    \<lparr> SerialNumber = serialNumber,
                      CertSubject = \<lparr> CommonName = ''External Issuer Mock CA'',
                                      Organization = [''cert-manager-external-issuer''],
                                      OrganizationalUnit = [], Locality = [], Province = [],
                                      Country = [] \<rparr>,
                      NotBefore = ca_now1 eff + (- 1) * Hour,
                      NotAfter = AddDate lib (ca_now2 eff) 10 0 0,
                      KeyUsage = KeyUsageCertSign OR KeyUsageCRLSign OR KeyUsageDigitalSignature,
                      ExtKeyUsage = [],
                      BasicConstraintsValid = True, IsCA = True, MaxPathLen = 1,
                      CertDNSNames = [], CertIPAddresses = [], CertURIs = [],
                      CertEmailAddresses = [] \<rparr>
              in case x509_CreateCertificate lib caTemplate caTemplate
                        (rsa_PublicKey lib caPrivKey) caPrivKey of
                   Inl e \<Rightarrow> (Some (Err (''failed to create CA certificate: '' @ e)), s)
                 | Inr caCertDER \<Rightarrow>
                    (case x509_ParseCertificate lib caCertDER of
                       Inl e \<Rightarrow> (Some (Err (''failed to parse CA certificate: '' @ e)),
                                  s\<lparr>caCert := None\<rparr>)
                     | Inr cert \<Rightarrow>
                        (None,
                         s\<lparr>caCert := Some cert, caKey := Some caPrivKey,
                           caPEM := pem_EncodeToMemory lib ''CERTIFICATE'' caCertDER,
                           caKeyPEM := pem_EncodeToMemory lib ''RSA PRIVATE KEY''
                                         (x509_MarshalPKCS1PrivateKey lib caPrivKey),
                           generated := True\<rparr>)))))"

definition MockCASigner_CheckHealth ::
  "x509lib \<Rightarrow> ensureCA_effects \<Rightarrow> MockCASigner \<Rightarrow> error option \<times> MockCASigner" where
  "MockCASigner_CheckHealth lib eff s =
     (case ensureCA lib eff s of
        (Some e, s') \<Rightarrow> (Some (Err (''Mock CA initialization failed: '' @ errorString e)), s')
      | (None, s') \<Rightarrow> (None, s'))"

text \<open>
  What the outside gives to one run of \<open>MockCASigner.Sign\<close>, in call order: the effects
  of \<open>ensureCA\<close>, the result of \<open>generateSerialNumber\<close>, and the two readings of
  \<open>time.Now()\<close>, the first for \<open>NotBefore\<close> and the second for \<open>NotAfter\<close>.
\<close>

record sign_effects =
  init :: ensureCA_effects
  serial :: "string + int"
  now1 :: int
  now2 :: int

text \<open>The \<open>certTemplate\<close> of \<open>MockCASigner.Sign\<close>.\<close>

definition certTemplate ::
  "x509lib \<Rightarrow> CertificateRequest \<Rightarrow> int \<Rightarrow> int \<Rightarrow> int \<Rightarrow> int \<Rightarrow> Certificate" where
  "certTemplate lib csr serialNumber t1 t2 validityDays =
     \<lparr> SerialNumber = serialNumber,
       CertSubject = Subject csr,
       NotBefore = t1 + (- 1) * Minute,
       NotAfter = AddDate lib t2 0 0 validityDays,
       KeyUsage = KeyUsageDigitalSignature OR KeyUsageKeyEncipherment,
       ExtKeyUsage = [ExtKeyUsageServerAuth, ExtKeyUsageClientAuth],
       BasicConstraintsValid = True, IsCA = False, MaxPathLen = 0,
       CertDNSNames = DNSNames csr, CertIPAddresses = IPAddresses csr, CertURIs = URIs csr,
       CertEmailAddresses = EmailAddresses csr \<rparr>"

definition MockCASigner_Sign ::
  "world \<Rightarrow> x509lib \<Rightarrow> sign_effects \<Rightarrow> MockCASigner \<Rightarrow> string \<Rightarrow> int
     \<Rightarrow> (error + (string \<times> string)) \<times> MockCASigner" where
  "MockCASigner_Sign w lib eff s csrPEM validityDays =
     (case ensureCA lib (init eff) s of
        (Some e, s') \<Rightarrow> (Inl (Err (''CA not ready: '' @ errorString e)), s')
      | (None, s') \<Rightarrow>
         (case pem_Decode w csrPEM of
            None \<Rightarrow> (Inl (Err ''invalid CSR PEM''), s')
          | Some block \<Rightarrow>
             (case x509_ParseCertificateRequest w (BlockBytes block) of
                Inl e \<Rightarrow> (Inl (Err (''failed to parse CSR: '' @ e)), s')
              | Inr csr \<Rightarrow>
                 (case CheckSignature csr of
                    Some e \<Rightarrow> (Inl (Err (''CSR signature validation failed: '' @ e)), s')
                  | None \<Rightarrow>
                     (case serial eff of
                        Inl e \<Rightarrow> (Inl (Err (''failed to generate serial: '' @ e)), s')
                      | Inr serialNumber \<Rightarrow>
                         (case (caCert s', caKey s') of
                            (Some parent, Some key) \<Rightarrow>
                              (case x509_CreateCertificate lib
                                      (certTemplate lib csr serialNumber (now1 eff) (now2 eff)
                                         validityDays)
                                      parent (PublicKey csr) key of
                                 Inl e \<Rightarrow> (Inl (Err (''failed to sign certificate: '' @ e)), s')
                               | Inr certDER \<Rightarrow>
                                   (Inr (pem_EncodeToMemory lib ''CERTIFICATE'' certDER, caPEM s'), s'))
                          | _ \<Rightarrow> (Inl (Panic ''nil pointer dereference''), s')))))))"

section \<open>Mock CA server: the legacy endpoint (MockCA.handlePKISign)\<close>

text \<open>\<open>storedCert\<close>; a nil byte slice is \<open>None\<close>.\<close>

record storedCert =
  CertPEM :: string
  KeyPEM :: "string option"
  CSR :: "string option"
  StoredSubject :: string


















section \<open>Certificate-request lifecycle controller (CertificateRequestReconciler)\<close>







text \<open>
  The condition types, statuses and reasons of cert-manager's API packages \<open>cmapi\<close> and
  \<open>cmmeta\<close> that the controller names, with their values there.
\<close>

definition CertificateRequestConditionReady :: string where
  "CertificateRequestConditionReady = ''Ready''"



definition ConditionTrue :: string where
  "ConditionTrue = ''True''"

definition ConditionFalse :: string where
  "ConditionFalse = ''False''"



record ObjectReference =
  IssuerName :: string
  IssuerKind :: string
  IssuerGroup :: string

record CertificateRequestCondition =
  CondType :: string
  CondStatus :: string
  Reason :: string
  Message :: string
  LastTransitionTime :: "int option"

text \<open>
  cert-manager's \<open>CertificateRequest\<close> object: name and namespace, \<open>Spec.IssuerRef\<close>,
  \<open>Spec.Request\<close> (the CSR PEM), \<open>Status.Conditions\<close>, \<open>Status.Certificate\<close> and \<open>Status.CA\<close>.
\<close>

record CMRequest =
  ObjName :: string
  ObjNamespace :: string
  IssuerRef :: ObjectReference
  Request :: string
  Conditions :: "CertificateRequestCondition list"
  StatusCertificate :: string
  StatusCA :: "string option"

record ConfigMapReference =
  CMName :: string
  CMNamespace :: string
  CMKey :: string

record ExternalIssuerSpec =
  URL :: string
  ConfigMapRef :: "ConfigMapReference option"
  AuthSecretName :: string
  SignerType :: string

record IssuerCondition =
  ICType :: string
  ICStatus :: string

text \<open>An \<open>ExternalIssuer\<close> or \<open>ExternalClusterIssuer\<close>: its spec and \<open>Status.Conditions\<close>.\<close>

record ExternalIssuer =
  Spec :: ExternalIssuerSpec
  IssuerConditions :: "IssuerCondition list"

datatype 'a fetched = NotFound | GetError string | Found 'a

text \<open>
  The API server as the reconciler's client sees it. Objects are fetched by namespace
  and name (a cluster issuer by name); a failed fetch is its error message.
  \<open>json_Unmarshal\<close> decodes a PKI configuration, \<open>Status_Update\<close> is
  \<open>r.Status().Update\<close> with its error, \<open>metav1_Now\<close> the clock.
\<close>

record cluster =
  Get_CertificateRequest :: "string \<times> string \<Rightarrow> CMRequest fetched"
  Get_ClusterIssuer :: "string \<Rightarrow> string + ExternalIssuer"
  Get_Issuer :: "string \<times> string \<Rightarrow> string + ExternalIssuer"
  Get_ConfigMap :: "string \<times> string \<Rightarrow> string + (string \<rightharpoonup> string)"
  Get_Secret :: "string \<times> string \<Rightarrow> string + (string \<rightharpoonup> string)"
  json_Unmarshal :: "string \<Rightarrow> string + PKIConfig"
  Status_Update :: "CMRequest \<Rightarrow> string option"
  metav1_Now :: int

text \<open>What a reconciliation does to the outside, in order.\<close>

datatype action =
  CheckHealthCalled
| SignCalled string int
| StatusUpdated CMRequest

fun setCondition ::
  "CertificateRequestCondition list \<Rightarrow> CertificateRequestCondition
     \<Rightarrow> CertificateRequestCondition list" where
  "setCondition [] condition = [condition]"
| "setCondition (c # conditions) condition =
     (if CondType c = CondType condition then condition # conditions
      else c # setCondition conditions condition)"







definition setStatus ::
  "cluster \<Rightarrow> CMRequest \<Rightarrow> string \<Rightarrow> string \<Rightarrow> string \<Rightarrow> string option \<times> action list" where
  "setStatus cl cr status reason message =
     (let cr' = cr\<lparr>Conditions :=
                  setCondition (Conditions cr)
                    \<lparr> CondType = CertificateRequestConditionReady, CondStatus = status,
                      Reason = reason, Message = message,
                      LastTransitionTime = Some (metav1_Now cl) \<rparr>\<rparr>
      in (Status_Update cl cr', [StatusUpdated cr']))"





text \<open>The \<open>Signer\<close> interface and its two implementations.\<close>

datatype Signer = PKI PKISigner | Mock MockCASigner

definition Signer_CheckHealth ::
  "world \<Rightarrow> x509lib \<Rightarrow> sign_effects \<Rightarrow> Signer \<Rightarrow> error option \<times> Signer" where
  "Signer_CheckHealth w lib eff certSigner =
     (case certSigner of
        PKI s \<Rightarrow> (PKISigner_CheckHealth w s, PKI s)
      | Mock s \<Rightarrow> (case MockCASigner_CheckHealth lib (init eff) s of (e, s') \<Rightarrow> (e, Mock s')))"

definition Signer_Sign ::
  "world \<Rightarrow> x509lib \<Rightarrow> sign_effects \<Rightarrow> Signer \<Rightarrow> string \<Rightarrow> int
     \<Rightarrow> error + (string \<times> string option)" where
  "Signer_Sign w lib eff certSigner csrPEM validityDays =
     (case certSigner of
        PKI s \<Rightarrow> PKISigner_Sign w s csrPEM validityDays
      | Mock s \<Rightarrow>
          (case fst (MockCASigner_Sign w lib eff s csrPEM validityDays) of
             Inl e \<Rightarrow> Inl e
           | Inr (certPEM, chainPEM) \<Rightarrow> Inr (certPEM, Some chainPEM)))"

text \<open>
  \<open>Reconcile\<close> from the health check on. A panic of the signer leaves the reconciliation
  without a status write.
\<close>

definition signAndRecord ::
  "world \<Rightarrow> x509lib \<Rightarrow> cluster \<Rightarrow> sign_effects \<Rightarrow> CMRequest \<Rightarrow> Signer
     \<Rightarrow> error option \<times> action list" where
  "signAndRecord w lib cl eff cr certSigner =
     (case Signer_CheckHealth w lib eff certSigner of
        (Some e, certSigner') \<Rightarrow>
          (case setStatus cl cr ConditionFalse ''SignerError'' (errorString e) of
             (err, acts) \<Rightarrow> (map_option Err err, CheckHealthCalled # acts))
      | (None, certSigner') \<Rightarrow>
          (case Signer_Sign w lib eff certSigner' (Request cr) 365 of
             Inl (Panic m) \<Rightarrow> (Some (Panic m), [CheckHealthCalled, SignCalled (Request cr) 365])
           | Inl (Err m) \<Rightarrow>
               (case setStatus cl cr ConditionFalse ''SigningFailed'' m of
                  (err, acts) \<Rightarrow>
                    (map_option Err err, [CheckHealthCalled, SignCalled (Request cr) 365] @ acts))
           | Inr (certPEM, chainPEM) \<Rightarrow>
               (case setStatus cl (cr\<lparr>StatusCertificate := certPEM, StatusCA := chainPEM\<rparr>)
                       ConditionTrue ''Issued'' ''Certificate issued successfully'' of
                  (err, acts) \<Rightarrow>
                    (map_option Err err, [CheckHealthCalled, SignCalled (Request cr) 365] @ acts))))"



section \<open>Notions the specification speaks of\<close>

text \<open>
  The components of a subject DN as the specification lists them: \<open>key=value\<close>, one per
  value of an attribute, the Common Name only when it is not empty.
\<close>

definition dn_cn :: "CertificateRequest \<Rightarrow> string list" where
  "dn_cn csr =
     (if CommonName (Subject csr) = '''' then [] else [''CN='' @ CommonName (Subject csr)])"

definition dn_attr :: "string \<Rightarrow> string list \<Rightarrow> string list" where
  "dn_attr key vals = map (\<lambda>v. key @ ''='' @ v) vals"

text \<open>Most specific first: CN, OU, O, L, ST, C.\<close>

definition dn_comma_components :: "CertificateRequest \<Rightarrow> string list" where
  "dn_comma_components csr =
     dn_cn csr @ dn_attr ''OU'' (OrganizationalUnit (Subject csr))
       @ dn_attr ''O'' (Organization (Subject csr))
       @ dn_attr ''L'' (Locality (Subject csr))
       @ dn_attr ''ST'' (Province (Subject csr))
       @ dn_attr ''C'' (Country (Subject csr))"

text \<open>Most general first: C, ST, L, O, OU, CN.\<close>

definition dn_slash_components :: "CertificateRequest \<Rightarrow> string list" where
  "dn_slash_components csr =
     dn_attr ''C'' (Country (Subject csr))
       @ dn_attr ''ST'' (Province (Subject csr))
       @ dn_attr ''L'' (Locality (Subject csr))
       @ dn_attr ''O'' (Organization (Subject csr))
       @ dn_attr ''OU'' (OrganizationalUnit (Subject csr))
       @ dn_cn csr"

text \<open>The first DNS name stands in as CN when the subject gives no component.\<close>

definition dn_fallback :: "CertificateRequest \<Rightarrow> string list \<Rightarrow> string list" where
  "dn_fallback csr comps =
     (if comps = [] \<and> DNSNames csr \<noteq> [] then [''CN='' @ hd (DNSNames csr)] else comps)"

text \<open>
  A certificate block in a byte stream: a BEGIN marker at some offset and an END marker
  at or after it.
\<close>

definition has_block :: "string \<Rightarrow> bool" where
  "has_block s =
     (\<exists>i\<le>length s. \<exists>j\<le>length s. i \<le> j \<and> prefix BEGIN_CERTIFICATE (drop i s)
        \<and> prefix END_CERTIFICATE (drop j s))"

text \<open>
  The text between the markers of a PEM block is base64 in lines: in particular it has
  no dash and no blank.
\<close>

definition pem_payload :: "string \<Rightarrow> bool" where
  "pem_payload m = (CHR ''-'' \<notin> set m \<and> CHR '' '' \<notin> set m)"

definition pem_block :: "string \<Rightarrow> string" where
  "pem_block m = BEGIN_CERTIFICATE @ m @ END_CERTIFICATE"

text \<open>
  The SAN parameters of a request: the start index and the cap after defaulting, the
  number of DNS names within the cap, and the key of the \<open>i\<close>-th name.
\<close>

definition dns_start :: "PKIParameters \<Rightarrow> go_int" where
  "dns_start cfg = (if DNSStartIndex cfg = 0 then 2 else DNSStartIndex cfg)"

definition dns_cap :: "PKIParameters \<Rightarrow> go_int" where
  "dns_cap cfg = (if DNSMaxCount cfg = 0 then 20 else DNSMaxCount cfg)"

definition san_count :: "PKIParameters \<Rightarrow> CertificateRequest \<Rightarrow> nat" where
  "san_count cfg csr = min (length (DNSNames csr)) (nat (sint (dns_cap cfg)))"

definition san_key :: "PKIParameters \<Rightarrow> nat \<Rightarrow> string" where
  "san_key cfg i = DNSPrefix cfg @ Itoa (sint (dns_start cfg + of_nat i))"








definition issued_object :: "CMRequest \<Rightarrow> string \<Rightarrow> string option \<Rightarrow> int \<Rightarrow> CMRequest" where
  "issued_object cr certPEM chainPEM t =
     cr\<lparr>StatusCertificate := certPEM, StatusCA := chainPEM,
        Conditions := setCondition (Conditions cr)
          \<lparr> CondType = ''Ready'', CondStatus = ''True'', Reason = ''Issued'',
            Message = ''Certificate issued successfully'', LastTransitionTime = Some t \<rparr>\<rparr>"

section \<open>Concrete inputs\<close>

text \<open>
  The legacy configuration of the specification's scenario: semicolon parameters, slash
  DN, \<open>new=1\<close>, \<open>subject\<close>, \<open>DNS\<close> from index 2.
\<close>

definition legacy_parameters :: PKIParameters where
  "legacy_parameters =
     \<lparr> ParamFormat = ''semicolon'', NewCertParam = ''new'', NewCertValue = ''1'',
       RenewCertParam = ''renew'', RenewCertValue = ''1'', SubjectParam = ''subject'',
       SubjectDNFormat = ''slash'', DNSPrefix = ''DNS'', DNSStartIndex = 2, DNSMaxCount = 0,
       GetCertParam = '''', GetKeyParam = '''', GetCSRParam = '''' \<rparr>"

definition legacy_config :: PKIConfig where
  "legacy_config =
     \<lparr> BaseURL = ''http://mockca:8080/cgi/pki.cgi'', Method = ''POST'',
       Parameters = legacy_parameters,
       Response = \<lparr> Format = ''pem'', CertificateField = '''', ChainField = '''' \<rparr>,
       Auth = None, TLS = None \<rparr>"

definition legacy_signer :: PKISigner where
  "legacy_signer = NewPKISigner legacy_config"

definition example_csr :: CertificateRequest where
  "example_csr =
     \<lparr> Subject = \<lparr> CommonName = ''app.example.com'', Organization = [''Example''],
                   OrganizationalUnit = [], Locality = [], Province = [], Country = [''US''] \<rparr>,
       DNSNames = [''alt.example.com''], IPAddresses = [], URIs = [], EmailAddresses = [],
       PublicKey = ''public key'', CheckSignature = None \<rparr>"

text \<open>The same request with a signature that does not verify against its public key.\<close>

definition forged_csr :: CertificateRequest where
  "forged_csr = example_csr\<lparr>CheckSignature := Some ''crypto/rsa: verification error''\<rparr>"

text \<open>A request whose subject has an Organization attribute with the empty value and nothing else.\<close>

definition empty_org_csr :: CertificateRequest where
  "empty_org_csr =
     \<lparr> Subject = \<lparr> CommonName = '''', Organization = [''''],
                   OrganizationalUnit = [], Locality = [], Province = [], Country = [] \<rparr>,
       DNSNames = [''a.example.com''], IPAddresses = [], URIs = [], EmailAddresses = [],
       PublicKey = ''public key'', CheckSignature = None \<rparr>"

definition csr_block :: pemBlock where
  "csr_block = \<lparr> BlockType = ''CERTIFICATE REQUEST'', BlockBytes = ''DER'' \<rparr>"

text \<open>
  A world in which the request bytes decode to \<open>csr\<close>, the runtime ranges over the
  parameter map in the order \<open>ks\<close>, and the PKI endpoint answers every request with
  status 200 and the body \<open>body\<close>.
\<close>

definition test_world :: "CertificateRequest \<Rightarrow> string list \<Rightarrow> string \<Rightarrow> world" where
  "test_world csr ks body =
     \<lparr> pem_Decode = (\<lambda>pem. Some csr_block),
       x509_ParseCertificateRequest = (\<lambda>der. Inr csr),
       url_Encode = (\<lambda>params. ''''),
       http_NewRequest_error = (\<lambda>method url. None),
       http_Do = (\<lambda>req. Inr \<lparr> StatusCode = 200, RespBody = Inr body \<rparr>),
       map_range = (\<lambda>params. ks) \<rparr>"

definition one_block_body :: string where
  "one_block_body = pem_block (CHR 0x0A # ''MIIBleaf'' @ [CHR 0x0A]) @ [CHR 0x0A]"

definition three_block_body :: string where
  "three_block_body =
     pem_block (CHR 0x0A # ''MIIBleaf'' @ [CHR 0x0A]) @ [CHR 0x0A]
     @ pem_block (CHR 0x0A # ''MIIBintermediate'' @ [CHR 0x0A]) @ [CHR 0x0A]
     @ pem_block (CHR 0x0A # ''MIIBroot'' @ [CHR 0x0A]) @ [CHR 0x0A]"

text \<open>
  A signer configured for JSON responses with the certificate in the field
  \<open>certificate\<close>, and a JSON body that has no such field.
\<close>

definition json_signer :: PKISigner where
  "json_signer =
     NewPKISigner (legacy_config\<lparr>Response :=
       \<lparr> Format = ''json'', CertificateField = ''certificate'', ChainField = ''chain'' \<rparr>\<rparr>)"

definition json_quote :: "string \<Rightarrow> string" where
  "json_quote s = CHR 0x22 # s @ [CHR 0x22]"

definition json_body_other_field :: string where
  "json_body_other_field =
     ''{'' @ json_quote ''cert'' @ '':'' @ json_quote (pem_block ''MIIBleaf'') @ ''}''"

text \<open>The request the legacy signer sends for \<open>example_csr\<close> when the map is ranged over in the order new, subject, DNS2.\<close>

definition legacy_request :: httpRequest where
  "legacy_request =
     \<lparr> ReqMethod = ''POST'', ReqURL = ''http://mockca:8080/cgi/pki.cgi'',
       ReqBody = ''new=1;subject=/C=US/O=Example/CN=app.example.com;DNS2=alt.example.com'',
       ReqHeaders = [(''Content-Type'', ''text/plain'')] \<rparr>"

text \<open>The legacy configuration with \<open>getCertParam\<close> set to the name of the first SAN parameter.\<close>

definition colliding_signer :: PKISigner where
  "colliding_signer =
     NewPKISigner (legacy_config\<lparr>Parameters := legacy_parameters\<lparr>GetCertParam := ''DNS2''\<rparr>\<rparr>)"














section \<open>Properties\<close>

subsection \<open>Facts about the library functions\<close>

lemma Join_empty_sep: "Join xs '''' = concat xs"
  by (induction xs rule: induct_list012) auto

lemma Index_Some_prefix: "Index s sub = Some i \<Longrightarrow> prefix sub (drop i s) \<and> i \<le> length s"
proof (induction s arbitrary: i)
  case Nil
  then show ?case by (simp split: if_splits)
next
  case (Cons c s)
  then show ?case by (auto split: if_splits)
qed

lemma Index_skip_dashfree:
  "CHR ''-'' \<notin> set p \<Longrightarrow>
   Index (p @ r) (CHR ''-'' # sub) = map_option ((+) (length p)) (Index r (CHR ''-'' # sub))"
proof (induction p)
  case Nil
  then show ?case by (simp add: option.map_ident)
next
  case (Cons c p)
  then show ?case by (auto simp: option.map_comp comp_def)
qed

lemma Index_BEGIN_here: "Index (BEGIN_CERTIFICATE @ r) BEGIN_CERTIFICATE = Some 0"
  by (simp add: BEGIN_CERTIFICATE_def)

lemma Index_END_here: "Index (END_CERTIFICATE @ r) END_CERTIFICATE = Some 0"
  by (simp add: END_CERTIFICATE_def)

lemma Index_BEGIN_after:
  "CHR ''-'' \<notin> set p \<Longrightarrow> Index (p @ BEGIN_CERTIFICATE @ r) BEGIN_CERTIFICATE = Some (length p)"
  using Index_skip_dashfree [of p "BEGIN_CERTIFICATE @ r" "''----BEGIN CERTIFICATE-----''"]
    Index_BEGIN_here [of r]
  by (simp add: BEGIN_CERTIFICATE_def)

lemma no_END_tail:
  assumes "CHR ''-'' \<notin> set m" "CHR '' '' \<notin> set m"
  shows "\<not> prefix ''ND CERTIFICATE-----'' (m @ END_CERTIFICATE @ r)"
proof
  assume p: "prefix ''ND CERTIFICATE-----'' (m @ END_CERTIFICATE @ r)"
  show False
  proof (cases m)
    case Nil
    with p show False by (simp add: END_CERTIFICATE_def)
  next
    case m1: (Cons a m1)
    show False
    proof (cases m1)
      case Nil
      with p m1 show False by (simp add: END_CERTIFICATE_def)
    next
      case m2: (Cons b m2)
      show False
      proof (cases m2)
        case Nil
        with p m1 m2 show False by (simp add: END_CERTIFICATE_def)
      next
        case (Cons c m3)
        with p m1 m2 assms show False by simp
      qed
    qed
  qed
qed

lemma Index_END_after:
  assumes "pem_payload m"
  shows "Index (BEGIN_CERTIFICATE @ m @ END_CERTIFICATE @ r) END_CERTIFICATE
         = Some (length BEGIN_CERTIFICATE + length m)"
proof -
  from assms have d: "CHR ''-'' \<notin> set m" and sp: "CHR '' '' \<notin> set m"
    by (simp_all add: pem_payload_def)
  have skip: "Index (m @ END_CERTIFICATE @ r) END_CERTIFICATE = Some (length m)"
    using Index_skip_dashfree [OF d, of "END_CERTIFICATE @ r" "''----END CERTIFICATE-----''"]
      Index_END_here [of r]
    by (simp add: END_CERTIFICATE_def)
  show ?thesis
  proof (cases m)
    case Nil
    then show ?thesis by (simp add: BEGIN_CERTIFICATE_def END_CERTIFICATE_def)
  next
    case (Cons c m')
    with d sp have c: "c \<noteq> CHR ''-''" and "CHR ''-'' \<notin> set m'" "CHR '' '' \<notin> set m'"
      by auto
    from no_END_tail [OF this(2,3), of r]
    have n: "\<not> prefix ''ND CERTIFICATE-----'' (m' @ ''-----END CERTIFICATE-----'' @ r)"
      by (simp add: END_CERTIFICATE_def)
    from skip Cons
    have "Index (c # m' @ ''-----END CERTIFICATE-----'' @ r) ''-----END CERTIFICATE-----''
          = Some (Suc (length m'))"
      by (simp add: END_CERTIFICATE_def)
    with c n Cons show ?thesis
      by (simp add: BEGIN_CERTIFICATE_def END_CERTIFICATE_def)
  qed
qed

lemma TrimSpace_block: "TrimSpace (pem_block m) = pem_block m"
  by (simp add: TrimSpace_def isSpace_def pem_block_def BEGIN_CERTIFICATE_def END_CERTIFICATE_def)

subsection \<open>The scanning loop of extractCAChain\<close>

lemma has_block_dashfree: "CHR ''-'' \<notin> set p \<Longrightarrow> \<not> has_block p"
  by (auto simp: has_block_def BEGIN_CERTIFICATE_def dest!: set_mono_prefix in_set_dropD)

lemma extractLoop_no_block:
  assumes "\<not> has_block r"
  shows "extractLoop r isFirst acc = acc"
proof (cases "Index r BEGIN_CERTIFICATE")
  case None
  then show ?thesis by (subst extractLoop.simps) simp
next
  case (Some st)
  note b = Index_Some_prefix [OF Some]
  show ?thesis
  proof (cases "Index (drop st r) END_CERTIFICATE")
    case None
    with Some show ?thesis by (subst extractLoop.simps) simp
  next
    case (Some e)
    from Index_Some_prefix [OF Some] b
    have pe: "prefix END_CERTIFICATE (drop (st + e) r)" and le: "st + e \<le> length r"
      by (auto simp: add.commute)
    from b pe le have "has_block r"
      unfolding has_block_def by (intro exI [of _ st] conjI exI [of _ "st + e"]) simp_all
    with assms show ?thesis by simp
  qed
qed

lemma extractLoop_block:
  assumes "CHR ''-'' \<notin> set p" "pem_payload m"
  shows "extractLoop (p @ pem_block m @ r) isFirst acc
         = extractLoop r False (if \<not> isFirst then acc @ [pem_block m] else acc)"
proof -
  let ?B = BEGIN_CERTIFICATE and ?E = END_CERTIFICATE
  have i1: "Index (p @ ?B @ m @ ?E @ r) ?B = Some (length p)"
    by (rule Index_BEGIN_after [OF assms(1)])
  have d1: "drop (length p) (p @ ?B @ m @ ?E @ r) = ?B @ m @ ?E @ r"
    by simp
  have i2: "Index (?B @ m @ ?E @ r) ?E = Some (length ?B + length m)"
    by (rule Index_END_after [OF assms(2)])
  have tk: "take (length ?B + length m + length ?E) (?B @ m @ ?E @ r) = ?B @ m @ ?E"
    by simp
  have d2: "drop (length p + (length ?B + length m) + length ?E) (p @ ?B @ m @ ?E @ r) = r"
    by simp
  have t: "TrimSpace (?B @ m @ ?E) = ?B @ m @ ?E"
    using TrimSpace_block [of m] by (simp add: pem_block_def)
  have "extractLoop (p @ ?B @ m @ ?E @ r) isFirst acc
         = extractLoop r False (if \<not> isFirst then acc @ [?B @ m @ ?E] else acc)"
    by (subst extractLoop.simps) (simp only: i1 d1 i2 tk d2 option.case Let_def t)
  then show ?thesis by (simp add: pem_block_def)
qed

lemma extractCAChain_one_block:
  assumes "Index body BEGIN_CERTIFICATE = Some st"
    and "Index (drop st body) END_CERTIFICATE = Some e"
    and "\<not> has_block (drop (st + e + length END_CERTIFICATE) body)"
  shows "extractCAChain body = None"
  using assms
  by (simp add: extractCAChain_def extractLoop.simps [of body] extractLoop_no_block)

lemma extractCAChain_three_blocks:
  assumes "CHR ''-'' \<notin> set p0" "CHR ''-'' \<notin> set p1" "CHR ''-'' \<notin> set p2" "CHR ''-'' \<notin> set p3"
    and "pem_payload m1" "pem_payload m2" "pem_payload m3"
  shows "extractCAChain (p0 @ pem_block m1 @ p1 @ pem_block m2 @ p2 @ pem_block m3 @ p3)
         = Some (pem_block m2 @ [CHR 0x0A] @ pem_block m3)"
  using assms
  by (simp add: extractCAChain_def extractLoop_block extractLoop_no_block has_block_dashfree)

lemma Contains_block: "CHR ''-'' \<notin> set p \<Longrightarrow> Contains (p @ pem_block m @ r) BEGIN_CERTIFICATE"
  using Index_BEGIN_after [of p "m @ END_CERTIFICATE @ r"]
  by (simp add: Contains_def pem_block_def)

subsection \<open>PKISigner.Sign, stage by stage\<close>

lemma Sign_transmitted:
  assumes "pem_Decode w csrPEM = Some block" "BlockType block = ''CERTIFICATE REQUEST''"
    and "x509_ParseCertificateRequest w (BlockBytes block) = Inr csr"
    and "newRequest w s (buildRequestParams s csr) = Inr req"
    and "http_Do w req = Inr \<lparr> StatusCode = 200, RespBody = Inr body \<rparr>"
    and "Contains body BEGIN_CERTIFICATE"
  shows "PKISigner_Sign w s csrPEM days = Inr (body, extractCAChain body)"
  using assms by (simp add: PKISigner_Sign_def makeRequest_def parseResponse_def)

subsection \<open>The two DN builders\<close>

lemma slashParts_components:
  "slashParts csr = map ((@) ''/'') (dn_fallback csr (dn_slash_components csr))"
  by (auto simp: slashParts_def dn_fallback_def dn_slash_components_def dn_attr_def dn_cn_def
        Let_def)

lemma commaParts_components: "commaParts csr = dn_fallback csr (dn_comma_components csr)"
  by (auto simp: commaParts_def dn_fallback_def dn_comma_components_def dn_attr_def dn_cn_def
        Let_def)

lemma mset_components:
  "mset (dn_fallback csr (dn_comma_components csr)) = mset (dn_fallback csr (dn_slash_components csr))"
  by (auto simp: dn_fallback_def dn_comma_components_def dn_slash_components_def)

text \<open>
  C6, as the code has it. For every CSR the comma builder joins with commas the
  components CN, OU, O, L, ST, C in this order, the slash builder writes the components
  C, ST, L, O, OU, CN each after a slash and with nothing after the last, and the two
  lists are the same multiset. A component is left out when the Common Name is the
  empty string or when an attribute has no value at all; every value an attribute does
  have is written, the empty string too. When the subject yields no component and there
  is a DNS name, the first DNS name is the only component, as CN.
\<close>

theorem dn_builders_same_components:
  "buildSubjectDNComma csr = Join (dn_fallback csr (dn_comma_components csr)) '',''
   \<and> buildSubjectDNSlash csr = concat (map ((@) ''/'') (dn_fallback csr (dn_slash_components csr)))
   \<and> mset (dn_fallback csr (dn_comma_components csr))
       = mset (dn_fallback csr (dn_slash_components csr))"
  by (simp add: buildSubjectDNComma_def buildSubjectDNSlash_def slashParts_components
        commaParts_components Join_empty_sep mset_components)

theorem dn_builders_same_components_witness:
  "buildSubjectDNComma example_csr = ''CN=app.example.com,O=Example,C=US''
   \<and> buildSubjectDNSlash example_csr = ''/C=US/O=Example/CN=app.example.com''"
  using dn_builders_same_components [of example_csr]
  by (simp add: dn_fallback_def dn_comma_components_def dn_slash_components_def dn_attr_def
        dn_cn_def example_csr_def)

text \<open>
  C6 as stated says that both builders skip empty components. A subject whose
  Organization attribute has the empty string as its value gets the component \<open>O=\<close>
  from both.
\<close>

theorem dn_builders_emit_empty_value:
  "Organization (Subject empty_org_csr) = ['''']
   \<and> buildSubjectDNComma empty_org_csr = ''O=''
   \<and> buildSubjectDNSlash empty_org_csr = ''/O=''"
  by (simp add: buildSubjectDNComma_def buildSubjectDNSlash_def slashParts_def commaParts_def
        empty_org_csr_def)

subsection \<open>PKISigner.Sign on responses of one and of three certificate blocks\<close>

text \<open>
  C10. When the request bytes decode to a CSR, the request is built and the endpoint
  answers 200 with a body in which a BEGIN marker is found and an END marker after it,
  and no certificate block follows that first one, \<open>PKISigner.Sign\<close> succeeds with the
  body as certificate and the nil chain; \<open>extractCAChain\<close> yields nil on such a body.
\<close>

theorem Sign_one_block_nil_chain:
  assumes "pem_Decode w csrPEM = Some block" "BlockType block = ''CERTIFICATE REQUEST''"
    and "x509_ParseCertificateRequest w (BlockBytes block) = Inr csr"
    and "newRequest w s (buildRequestParams s csr) = Inr req"
    and "http_Do w req = Inr \<lparr> StatusCode = 200, RespBody = Inr body \<rparr>"
    and "Index body BEGIN_CERTIFICATE = Some st"
    and "Index (drop st body) END_CERTIFICATE = Some e"
    and "\<not> has_block (drop (st + e + length END_CERTIFICATE) body)"
  shows "PKISigner_Sign w s csrPEM days = Inr (body, None) \<and> extractCAChain body = None"
proof -
  from assms(6) have "Contains body BEGIN_CERTIFICATE"
    by (simp add: Contains_def)
  from Sign_transmitted [OF assms(1-5) this] extractCAChain_one_block [OF assms(6-8)]
  show ?thesis by simp
qed

lemma legacy_params:
  "buildRequestParams legacy_signer (example_csr\<lparr>CheckSignature := v\<rparr>)
   = [''new'' \<mapsto> [''1''], ''subject'' \<mapsto> [''/C=US/O=Example/CN=app.example.com''],
      ''DNS2'' \<mapsto> [''alt.example.com'']]"
  by (simp add: buildRequestParams_def legacy_signer_def NewPKISigner_def legacy_config_def
        legacy_parameters_def example_csr_def buildSubjectDN_def buildSubjectDNSlash_def
        slashParts_def Set_def Itoa_def digitChar_def digitsOf.simps)

lemma legacy_body:
  "requestBody (test_world csr ks body) legacy_signer
     [''new'' \<mapsto> [''1''], ''subject'' \<mapsto> [''/C=US/O=Example/CN=app.example.com''],
      ''DNS2'' \<mapsto> [''alt.example.com'']]
   = Join (concat (map (semicolonPart
        [''new'' \<mapsto> [''1''], ''subject'' \<mapsto> [''/C=US/O=Example/CN=app.example.com''],
         ''DNS2'' \<mapsto> [''alt.example.com'']]) ks)) '';''"
  by (simp add: requestBody_def legacy_signer_def NewPKISigner_def legacy_config_def
        legacy_parameters_def test_world_def)

lemma legacy_newRequest:
  "newRequest (test_world csr [''new'', ''subject'', ''DNS2''] body) legacy_signer
     (buildRequestParams legacy_signer (example_csr\<lparr>CheckSignature := v\<rparr>))
   = Inr legacy_request"
  unfolding legacy_params legacy_request_def newRequest_def legacy_body
  by (simp add: legacy_signer_def NewPKISigner_def legacy_config_def
        legacy_parameters_def test_world_def semicolonPart_def ToUpper_def toUpperChar_def
        HeaderSet_def addAuth_def)

lemma one_block_body_scan:
  "Index one_block_body BEGIN_CERTIFICATE = Some 0
   \<and> Index (drop 0 one_block_body) END_CERTIFICATE = Some 37
   \<and> \<not> has_block (drop (0 + 37 + length END_CERTIFICATE) one_block_body)"
proof -
  have "one_block_body = [] @ pem_block (CHR 0x0A # ''MIIBleaf'' @ [CHR 0x0A]) @ [CHR 0x0A]"
    by (simp add: one_block_body_def)
  have 1: "Index one_block_body BEGIN_CERTIFICATE = Some 0"
    using Index_BEGIN_here by (simp add: one_block_body_def pem_block_def)
  have 2: "Index (drop 0 one_block_body) END_CERTIFICATE = Some 37"
    using Index_END_after [of "CHR 0x0A # ''MIIBleaf'' @ [CHR 0x0A]" "[CHR 0x0A]"]
    by (simp add: one_block_body_def pem_block_def pem_payload_def BEGIN_CERTIFICATE_def)
  have "drop (0 + 37 + length END_CERTIFICATE) one_block_body = [CHR 0x0A]"
    by (simp add: one_block_body_def pem_block_def BEGIN_CERTIFICATE_def END_CERTIFICATE_def)
  with has_block_dashfree [of "[CHR 0x0A]"] 1 2 show ?thesis
    by simp
qed

theorem Sign_one_block_nil_chain_witness:
  "pem_Decode (test_world example_csr [''new'', ''subject'', ''DNS2''] one_block_body) ''csr''
     = Some csr_block
   \<and> BlockType csr_block = ''CERTIFICATE REQUEST''
   \<and> x509_ParseCertificateRequest
        (test_world example_csr [''new'', ''subject'', ''DNS2''] one_block_body)
        (BlockBytes csr_block) = Inr example_csr
   \<and> newRequest (test_world example_csr [''new'', ''subject'', ''DNS2''] one_block_body)
        legacy_signer (buildRequestParams legacy_signer example_csr) = Inr legacy_request
   \<and> http_Do (test_world example_csr [''new'', ''subject'', ''DNS2''] one_block_body)
        legacy_request = Inr \<lparr> StatusCode = 200, RespBody = Inr one_block_body \<rparr>
   \<and> Index one_block_body BEGIN_CERTIFICATE = Some 0
   \<and> Index (drop 0 one_block_body) END_CERTIFICATE = Some 37
   \<and> \<not> has_block (drop (0 + 37 + length END_CERTIFICATE) one_block_body)
   \<and> PKISigner_Sign (test_world example_csr [''new'', ''subject'', ''DNS2''] one_block_body)
        legacy_signer ''csr'' 365 = Inr (one_block_body, None)
   \<and> extractCAChain one_block_body = None"
proof -
  let ?w = "test_world example_csr [''new'', ''subject'', ''DNS2''] one_block_body"
  have h1: "pem_Decode ?w ''csr'' = Some csr_block"
    by (simp add: test_world_def)
  have h2: "BlockType csr_block = ''CERTIFICATE REQUEST''"
    by (simp add: csr_block_def)
  have h3: "x509_ParseCertificateRequest ?w (BlockBytes csr_block) = Inr example_csr"
    by (simp add: test_world_def)
  have h4: "newRequest ?w legacy_signer (buildRequestParams legacy_signer example_csr)
              = Inr legacy_request"
    using legacy_newRequest [of example_csr one_block_body None] by (simp add: example_csr_def)
  have h5: "http_Do ?w legacy_request = Inr \<lparr> StatusCode = 200, RespBody = Inr one_block_body \<rparr>"
    by (simp add: test_world_def)
  note h678 = one_block_body_scan
  from Sign_one_block_nil_chain [OF h1 h2 h3 h4 h5 h678 [THEN conjunct1]
      h678 [THEN conjunct2, THEN conjunct1] h678 [THEN conjunct2, THEN conjunct2], of 365]
  show ?thesis using h1 h2 h3 h4 h5 h678 by simp
qed

lemma three_block_body_shape:
  "three_block_body
   = [] @ pem_block (CHR 0x0A # ''MIIBleaf'' @ [CHR 0x0A]) @ [CHR 0x0A]
        @ pem_block (CHR 0x0A # ''MIIBintermediate'' @ [CHR 0x0A]) @ [CHR 0x0A]
        @ pem_block (CHR 0x0A # ''MIIBroot'' @ [CHR 0x0A]) @ [CHR 0x0A]"
  by (simp add: three_block_body_def)

lemma three_block_chain:
  "extractCAChain three_block_body
   = Some (pem_block (CHR 0x0A # ''MIIBintermediate'' @ [CHR 0x0A]) @ [CHR 0x0A]
           @ pem_block (CHR 0x0A # ''MIIBroot'' @ [CHR 0x0A]))"
  unfolding three_block_body_shape
  by (rule extractCAChain_three_blocks) (simp_all add: pem_payload_def)

text \<open>
  C2 as stated gives the first block alone as the leaf. On a body of three blocks
  \<open>PKISigner.Sign\<close> returns the whole body as the certificate.
\<close>

theorem Sign_three_blocks_returns_whole_body:
  "PKISigner_Sign (test_world example_csr [''new'', ''subject'', ''DNS2''] three_block_body)
     legacy_signer ''csr'' 365
   = Inr (three_block_body,
          Some (pem_block (CHR 0x0A # ''MIIBintermediate'' @ [CHR 0x0A]) @ [CHR 0x0A]
                @ pem_block (CHR 0x0A # ''MIIBroot'' @ [CHR 0x0A])))
   \<and> three_block_body \<noteq> pem_block (CHR 0x0A # ''MIIBleaf'' @ [CHR 0x0A])"
proof -
  let ?w = "test_world example_csr [''new'', ''subject'', ''DNS2''] three_block_body"
  have h4: "newRequest ?w legacy_signer (buildRequestParams legacy_signer example_csr)
              = Inr legacy_request"
    using legacy_newRequest [of example_csr three_block_body None] by (simp add: example_csr_def)
  have c: "Contains three_block_body BEGIN_CERTIFICATE"
    unfolding three_block_body_shape by (rule Contains_block) simp
  have h1: "pem_Decode ?w ''csr'' = Some csr_block"
    and h3: "x509_ParseCertificateRequest ?w (BlockBytes csr_block) = Inr example_csr"
    and h5: "http_Do ?w legacy_request = Inr \<lparr> StatusCode = 200, RespBody = Inr three_block_body \<rparr>"
    by (simp_all add: test_world_def)
  have h2: "BlockType csr_block = ''CERTIFICATE REQUEST''"
    by (simp add: csr_block_def)
  have "PKISigner_Sign ?w legacy_signer ''csr'' 365
        = Inr (three_block_body, extractCAChain three_block_body)"
    by (rule Sign_transmitted [OF h1 h2 h3 h4 h5 c])
  moreover have "three_block_body \<noteq> pem_block (CHR 0x0A # ''MIIBleaf'' @ [CHR 0x0A])"
    by (simp add: three_block_body_def)
  ultimately show ?thesis by (simp add: three_block_chain)
qed

text \<open>
  C2, as the code has it. When the request is sent and the endpoint answers 200 with a
  body of three certificate blocks in sequence (base64 payloads between the markers,
  no dash in the text before, between and after the blocks), \<open>PKISigner.Sign\<close> returns
  the whole body, all three blocks, as the certificate, and as CA chain the second and
  the third block in the order met, joined by one line feed.
\<close>

theorem Sign_three_blocks_chain:
  assumes "pem_Decode w csrPEM = Some block" "BlockType block = ''CERTIFICATE REQUEST''"
    and "x509_ParseCertificateRequest w (BlockBytes block) = Inr csr"
    and "newRequest w s (buildRequestParams s csr) = Inr req"
    and "http_Do w req = Inr \<lparr> StatusCode = 200, RespBody = Inr body \<rparr>"
    and "body = p0 @ pem_block m1 @ p1 @ pem_block m2 @ p2 @ pem_block m3 @ p3"
    and "CHR ''-'' \<notin> set p0" "CHR ''-'' \<notin> set p1" "CHR ''-'' \<notin> set p2" "CHR ''-'' \<notin> set p3"
    and "pem_payload m1" "pem_payload m2" "pem_payload m3"
  shows "PKISigner_Sign w s csrPEM days
         = Inr (body, Some (pem_block m2 @ [CHR 0x0A] @ pem_block m3))"
proof -
  from assms(6,7) have "Contains body BEGIN_CERTIFICATE"
    by (simp add: Contains_block)
  from Sign_transmitted [OF assms(1-5) this]
    extractCAChain_three_blocks [OF assms(7-13)] assms(6)
  show ?thesis by simp
qed

theorem Sign_three_blocks_chain_witness:
  "pem_Decode (test_world example_csr [''new'', ''subject'', ''DNS2''] three_block_body) ''csr''
     = Some csr_block
   \<and> BlockType csr_block = ''CERTIFICATE REQUEST''
   \<and> x509_ParseCertificateRequest
        (test_world example_csr [''new'', ''subject'', ''DNS2''] three_block_body)
        (BlockBytes csr_block) = Inr example_csr
   \<and> newRequest (test_world example_csr [''new'', ''subject'', ''DNS2''] three_block_body)
        legacy_signer (buildRequestParams legacy_signer example_csr) = Inr legacy_request
   \<and> http_Do (test_world example_csr [''new'', ''subject'', ''DNS2''] three_block_body)
        legacy_request = Inr \<lparr> StatusCode = 200, RespBody = Inr three_block_body \<rparr>
   \<and> CHR ''-'' \<notin> set [CHR 0x0A]
   \<and> pem_payload (CHR 0x0A # ''MIIBleaf'' @ [CHR 0x0A])
   \<and> pem_payload (CHR 0x0A # ''MIIBintermediate'' @ [CHR 0x0A])
   \<and> pem_payload (CHR 0x0A # ''MIIBroot'' @ [CHR 0x0A])
   \<and> PKISigner_Sign (test_world example_csr [''new'', ''subject'', ''DNS2''] three_block_body)
        legacy_signer ''csr'' 365
      = Inr (three_block_body,
             Some (pem_block (CHR 0x0A # ''MIIBintermediate'' @ [CHR 0x0A]) @ [CHR 0x0A]
                   @ pem_block (CHR 0x0A # ''MIIBroot'' @ [CHR 0x0A])))"
proof -
  let ?w = "test_world example_csr [''new'', ''subject'', ''DNS2''] three_block_body"
  have h1: "pem_Decode ?w ''csr'' = Some csr_block"
    by (simp add: test_world_def)
  have h2: "BlockType csr_block = ''CERTIFICATE REQUEST''"
    by (simp add: csr_block_def)
  have h3: "x509_ParseCertificateRequest ?w (BlockBytes csr_block) = Inr example_csr"
    by (simp add: test_world_def)
  have h4: "newRequest ?w legacy_signer (buildRequestParams legacy_signer example_csr)
              = Inr legacy_request"
    using legacy_newRequest [of example_csr three_block_body None] by (simp add: example_csr_def)
  have h5: "http_Do ?w legacy_request = Inr \<lparr> StatusCode = 200, RespBody = Inr three_block_body \<rparr>"
    by (simp add: test_world_def)
  have d0: "CHR ''-'' \<notin> set []" and d: "CHR ''-'' \<notin> set [CHR 0x0A]"
    by simp_all
  have m1: "pem_payload (CHR 0x0A # ''MIIBleaf'' @ [CHR 0x0A])"
    and m2: "pem_payload (CHR 0x0A # ''MIIBintermediate'' @ [CHR 0x0A])"
    and m3: "pem_payload (CHR 0x0A # ''MIIBroot'' @ [CHR 0x0A])"
    by (simp_all add: pem_payload_def)
  from Sign_three_blocks_chain [OF h1 h2 h3 h4 h5 three_block_body_shape d0 d d d m1 m2 m3, of 365]
  show ?thesis using h1 h2 h3 h4 h5 d m1 m2 m3 by simp
qed

subsection \<open>PKISigner.Sign and the CSR's signature\<close>

text \<open>
  C1 at a failing input: a CSR whose signature does not verify. \<open>PKISigner.Sign\<close> never
  asks for the verification (\<open>MockCASigner.Sign\<close> does, with \<open>csr.CheckSignature()\<close>): it
  builds the request, sends it to the endpoint and returns what the endpoint issued.
\<close>

theorem Sign_sends_forged_csr:
  "CheckSignature forged_csr \<noteq> None
   \<and> x509_ParseCertificateRequest
        (test_world forged_csr [''new'', ''subject'', ''DNS2''] one_block_body)
        (BlockBytes csr_block) = Inr forged_csr
   \<and> newRequest (test_world forged_csr [''new'', ''subject'', ''DNS2''] one_block_body)
        legacy_signer (buildRequestParams legacy_signer forged_csr) = Inr legacy_request
   \<and> PKISigner_Sign (test_world forged_csr [''new'', ''subject'', ''DNS2''] one_block_body)
        legacy_signer ''csr'' 365 = Inr (one_block_body, None)"
proof -
  let ?w = "test_world forged_csr [''new'', ''subject'', ''DNS2''] one_block_body"
  have h4: "newRequest ?w legacy_signer (buildRequestParams legacy_signer forged_csr)
              = Inr legacy_request"
    using legacy_newRequest [of forged_csr one_block_body "Some ''crypto/rsa: verification error''"] by (simp add: forged_csr_def)
  have c: "Contains one_block_body BEGIN_CERTIFICATE"
    using one_block_body_scan by (simp add: Contains_def)
  have h1: "pem_Decode ?w ''csr'' = Some csr_block"
    and h3: "x509_ParseCertificateRequest ?w (BlockBytes csr_block) = Inr forged_csr"
    and h5: "http_Do ?w legacy_request = Inr \<lparr> StatusCode = 200, RespBody = Inr one_block_body \<rparr>"
    by (simp_all add: test_world_def)
  have h2: "BlockType csr_block = ''CERTIFICATE REQUEST''"
    by (simp add: csr_block_def)
  have "PKISigner_Sign ?w legacy_signer ''csr'' 365
        = Inr (one_block_body, extractCAChain one_block_body)"
    by (rule Sign_transmitted [OF h1 h2 h3 h4 h5 c])
  moreover have "extractCAChain one_block_body = None"
    using one_block_body_scan extractCAChain_one_block by blast
  moreover have "CheckSignature forged_csr \<noteq> None"
    by (simp add: forged_csr_def)
  ultimately show ?thesis
    using h3 h4 by simp
qed

subsection \<open>PKISigner.parseResponse and the configured format\<close>

text \<open>
  C3 at failing inputs: the signer is configured for JSON responses with the
  certificate in the field \<open>certificate\<close>. \<open>parseResponse\<close> reads the configured format and
  does nothing with it: a JSON body without that field is returned as it is, as the
  certificate, when the marker occurs somewhere in it, and is refused with an error
  that names no field when it does not.
\<close>

theorem parseResponse_ignores_json_format:
  "Format (Response (config json_signer)) = ''json''
   \<and> CertificateField (Response (config json_signer)) = ''certificate''
   \<and> parseResponse json_signer json_body_other_field = Inr json_body_other_field
   \<and> parseResponse json_signer ''{}'' = Inl (Err ''no certificate in response'')"
  by (simp add: parseResponse_def json_signer_def NewPKISigner_def Contains_def
        json_body_other_field_def json_quote_def pem_block_def BEGIN_CERTIFICATE_def)

subsection \<open>Decimal formatting is injective\<close>

lemma digit_range: "d < (10::nat) \<Longrightarrow> d \<in> {0, 1, 2, 3, 4, 5, 6, 7, 8, 9}"
  by auto

lemma digitChar_cases: "d < 10 \<Longrightarrow> digitChar d \<in> set ''0123456789''"
  using digit_range [of d] by (auto simp: digitChar_def)

lemma digitChar_inj: "a < 10 \<Longrightarrow> b < 10 \<Longrightarrow> digitChar a = digitChar b \<Longrightarrow> a = b"
  using digit_range [of a] digit_range [of b] by (auto simp: digitChar_def)

lemma digitsOf_not_Nil: "digitsOf n \<noteq> []"
  by (subst digitsOf.simps) simp

lemma digitsOf_no_minus: "CHR ''-'' \<notin> set (digitsOf n)"
proof (induction n rule: digitsOf.induct)
  case (1 n)
  have d: "digitChar d \<noteq> CHR ''-''" if "d < 10" for d
    using digitChar_cases [OF that] by auto
  show ?case
  proof (cases "n < 10")
    case True
    with d [of n] show ?thesis by (subst digitsOf.simps) auto
  next
    case False
    with 1 d [of "n mod 10"] show ?thesis by (subst digitsOf.simps) auto
  qed
qed

lemma digitsOf_inj: "digitsOf n = digitsOf m \<Longrightarrow> n = m"
proof (induction n arbitrary: m rule: digitsOf.induct)
  case (1 n)
  have split: "digitsOf k = (if k < 10 then [] else digitsOf (k div 10)) @ [digitChar (k mod 10)]" for k
    by (subst digitsOf.simps) simp
  from "1.prems" have eq: "(if n < 10 then [] else digitsOf (n div 10)) @ [digitChar (n mod 10)]
      = (if m < 10 then [] else digitsOf (m div 10)) @ [digitChar (m mod 10)]"
    using split [of n] split [of m] by simp
  then have l: "digitChar (n mod 10) = digitChar (m mod 10)"
    and b: "(if n < 10 then [] else digitsOf (n div 10)) = (if m < 10 then [] else digitsOf (m div 10))"
    by simp_all
  from l have md: "n mod 10 = m mod 10"
    by (rule digitChar_inj [rotated 2]) simp_all
  show ?case
  proof (cases "n < 10")
    case True
    with b have "m < 10" using digitsOf_not_Nil [of "m div 10"] by (auto split: if_splits)
    with True md show ?thesis by simp
  next
    case False
    with b have m: "\<not> m < 10" using digitsOf_not_Nil [of "n div 10"] by (auto split: if_splits)
    with False b have "digitsOf (n div 10) = digitsOf (m div 10)" by simp
    with "1.IH" False have "n div 10 = m div 10" by simp
    with md show ?thesis by (metis div_mult_mod_eq)
  qed
qed

lemma Itoa_inj: "Itoa x = Itoa y \<Longrightarrow> x = y"
proof -
  assume eq: "Itoa x = Itoa y"
  have hd_nonneg: "hd (digitsOf k) \<noteq> CHR ''-''" for k
    using digitsOf_no_minus [of k] digitsOf_not_Nil [of k] by (cases "digitsOf k") auto
  show "x = y"
  proof (cases "x < 0")
    case True
    show ?thesis
    proof (cases "y < 0")
      case y: True
      with True eq have "digitsOf (nat (- x)) = digitsOf (nat (- y))" by (simp add: Itoa_def)
      then have "nat (- x) = nat (- y)" by (rule digitsOf_inj)
      with True y show ?thesis by simp
    next
      case False
      with True eq have "CHR ''-'' # digitsOf (nat (- x)) = digitsOf (nat y)" by (simp add: Itoa_def)
      with hd_nonneg [of "nat y"] show ?thesis by (metis list.sel(1))
    qed
  next
    case False
    show ?thesis
    proof (cases "y < 0")
      case True
      with False eq have "digitsOf (nat x) = CHR ''-'' # digitsOf (nat (- y))" by (simp add: Itoa_def)
      with hd_nonneg [of "nat x"] show ?thesis by (metis list.sel(1))
    next
      case y: False
      with False eq have "digitsOf (nat x) = digitsOf (nat y)" by (simp add: Itoa_def)
      then have "nat x = nat y" by (rule digitsOf_inj)
      with False y show ?thesis by simp
    qed
  qed
qed

lemma go_int_index_inj:
  fixes S :: go_int
  assumes "sint (S + of_nat a) = sint (S + of_nat b)" "a < 2 ^ 63" "b < 2 ^ 63"
  shows "a = b"
proof -
  from assms(1) have "S + of_nat a = S + of_nat b"
    by (rule signed_word_eqI)
  then have "(of_nat a :: go_int) = of_nat b" by simp
  then have "a mod 2 ^ 64 = b mod 2 ^ 64"
    by (simp add: word_of_nat_eq_iff take_bit_eq_mod)
  moreover from assms(2,3) have "a < 2 ^ 64" "b < 2 ^ 64" by simp_all
  ultimately show ?thesis by simp
qed

subsection \<open>The SAN parameters of buildRequestParams\<close>

lemma dns_key_inj:
  fixes S C :: go_int
  assumes "pre @ Itoa (sint (S + of_nat a)) = pre @ Itoa (sint (S + of_nat b))"
    and "int a < sint C" "int b < sint C"
  shows "a = b"
proof -
  have "sint C < 2 ^ 63"
    using sint_lt [of C] by simp
  with assms(2,3) have "a < 2 ^ 63" "b < 2 ^ 63"
    by simp_all
  moreover from assms(1) have "sint (S + of_nat a) = sint (S + of_nat b)"
    by (simp add: Itoa_inj)
  ultimately show ?thesis
    by (rule go_int_index_inj [rotated])
qed

lemma addDNSParams_other:
  "(\<And>j. j < length names \<Longrightarrow> int (i + j) < sint C
        \<Longrightarrow> key \<noteq> pre @ Itoa (sint (S + of_nat (i + j))))
   \<Longrightarrow> addDNSParams pre S C i names params key = params key"
proof (induction names arbitrary: i params)
  case Nil
  then show ?case by simp
next
  case (Cons dns rest)
  show ?case
  proof (cases "sint C \<le> int i")
    case True
    then show ?thesis by simp
  next
    case False
    have "addDNSParams pre S C (Suc i) rest (Set params (pre @ Itoa (sint (S + of_nat i))) dns) key
          = Set params (pre @ Itoa (sint (S + of_nat i))) dns key"
    proof (rule Cons.IH)
      fix j
      assume "j < length rest" "int (Suc i + j) < sint C"
      with Cons.prems [of "Suc j"] show "key \<noteq> pre @ Itoa (sint (S + of_nat (Suc i + j)))"
        by simp
    qed
    moreover from Cons.prems [of 0] False have "key \<noteq> pre @ Itoa (sint (S + of_nat i))"
      by simp
    ultimately show ?thesis using False by (simp add: Set_def)
  qed
qed

lemma addDNSParams_at:
  "j < length names \<Longrightarrow> int (i + j) < sint C
   \<Longrightarrow> addDNSParams pre S C i names params (pre @ Itoa (sint (S + of_nat (i + j))))
       = Some [names ! j]"
proof (induction names arbitrary: i j params)
  case Nil
  then show ?case by simp
next
  case (Cons dns rest)
  from Cons.prems have run: "\<not> sint C \<le> int i"
    by simp
  show ?case
  proof (cases j)
    case 0
    have "addDNSParams pre S C (Suc i) rest (Set params (pre @ Itoa (sint (S + of_nat i))) dns)
            (pre @ Itoa (sint (S + of_nat i)))
          = Set params (pre @ Itoa (sint (S + of_nat i))) dns (pre @ Itoa (sint (S + of_nat i)))"
    proof (rule addDNSParams_other)
      fix k
      assume k: "k < length rest" "int (Suc i + k) < sint C"
      show "pre @ Itoa (sint (S + of_nat i)) \<noteq> pre @ Itoa (sint (S + of_nat (Suc i + k)))"
      proof
        assume "pre @ Itoa (sint (S + of_nat i)) = pre @ Itoa (sint (S + of_nat (Suc i + k)))"
        from dns_key_inj [OF this _ k(2)] run show False by simp
      qed
    qed
    with 0 run show ?thesis by (simp add: Set_def)
  next
    case (Suc j')
    with Cons.prems have "j' < length rest" "int (Suc i + j') < sint C"
      by simp_all
    from Cons.IH [OF this] Suc run show ?thesis by simp
  qed
qed

lemma dom_addDNSParams:
  "dom (addDNSParams pre S C i names params)
   = dom params \<union> {pre @ Itoa (sint (S + of_nat (i + j))) | j. j < length names \<and> int (i + j) < sint C}"
proof (induction names arbitrary: i params)
  case Nil
  then show ?case by simp
next
  case (Cons dns rest)
  show ?case
  proof (cases "sint C \<le> int i")
    case True
    then show ?thesis by auto
  next
    case False
    have "{pre @ Itoa (sint (S + of_nat (i + j))) | j. j < length (dns # rest) \<and> int (i + j) < sint C}
          = insert (pre @ Itoa (sint (S + of_nat i)))
              {pre @ Itoa (sint (S + of_nat (Suc i + j))) | j. j < length rest \<and> int (Suc i + j) < sint C}"
      (is "?L = ?R")
    proof (rule set_eqI)
      fix x
      show "x \<in> ?L \<longleftrightarrow> x \<in> ?R"
      proof
        assume "x \<in> ?L"
        then obtain j where j: "x = pre @ Itoa (sint (S + of_nat (i + j)))"
          "j < length (dns # rest)" "int (i + j) < sint C" by blast
        show "x \<in> ?R"
        proof (cases j)
          case 0
          with j show ?thesis by simp
        next
          case (Suc j')
          with j have "x = pre @ Itoa (sint (S + of_nat (Suc i + j')))" "j' < length rest"
            "int (Suc i + j') < sint C" by simp_all
          then show ?thesis by blast
        qed
      next
        assume "x \<in> ?R"
        then consider "x = pre @ Itoa (sint (S + of_nat i))"
          | j where "x = pre @ Itoa (sint (S + of_nat (Suc i + j)))" "j < length rest"
              "int (Suc i + j) < sint C" by blast
        then show "x \<in> ?L"
        proof cases
          case 1
          with False have "x = pre @ Itoa (sint (S + of_nat (i + 0)))" "0 < length (dns # rest)"
            "int (i + 0) < sint C" by simp_all
          then show ?thesis by blast
        next
          case 2
          then have "x = pre @ Itoa (sint (S + of_nat (i + Suc j)))" "Suc j < length (dns # rest)"
            "int (i + Suc j) < sint C" by simp_all
          then show ?thesis by blast
        qed
      qed
    qed
    then have seteq: "?L = ?R" .
    have d: "dom (Set params (pre @ Itoa (sint (S + of_nat i))) dns)
             = insert (pre @ Itoa (sint (S + of_nat i))) (dom params)"
      by (simp add: Set_def)
    from False have "dom (addDNSParams pre S C i (dns # rest) params)
          = dom (addDNSParams pre S C (Suc i) rest (Set params (pre @ Itoa (sint (S + of_nat i))) dns))"
      by simp
    also have "\<dots> = dom (Set params (pre @ Itoa (sint (S + of_nat i))) dns)
          \<union> {pre @ Itoa (sint (S + of_nat (Suc i + j))) | j. j < length rest \<and> int (Suc i + j) < sint C}"
      by (rule Cons.IH)
    also have "\<dots> = dom params \<union> ?L"
      unfolding seteq d by blast
    finally show ?thesis .
  qed
qed

lemma buildRequestParams_unfold:
  fixes s :: PKISigner and csr :: CertificateRequest and cfg :: PKIParameters
  assumes "cfg = Parameters (config s)" "DNSPrefix cfg \<noteq> ''''"
  defines "P0 \<equiv> (let params = (if NewCertParam cfg \<noteq> ''''
                                  then Set Map.empty (NewCertParam cfg) (NewCertValue cfg)
                                  else Map.empty)
                  in if SubjectParam cfg \<noteq> '''' \<and> buildSubjectDN s csr \<noteq> ''''
                     then Set params (SubjectParam cfg) (buildSubjectDN s csr) else params)"
  defines "P1 \<equiv> addDNSParams (DNSPrefix cfg) (dns_start cfg) (dns_cap cfg) 0 (DNSNames csr) P0"
  shows "buildRequestParams s csr
         = (if GetCertParam cfg \<noteq> '''' then Set P1 (GetCertParam cfg) '''' else P1)"
  using assms(1,2) unfolding P0_def P1_def
  by (cases "DNSNames csr") (simp_all add: buildRequestParams_def Let_def dns_start_def dns_cap_def)

lemma san_in_range: "j < san_count cfg csr \<longleftrightarrow> j < length (DNSNames csr) \<and> int (0 + j) < sint (dns_cap cfg)"
  by (auto simp: san_count_def)

text \<open>
  C4, as the code has it. For a CSR with N DNS names and a configuration with a
  non-empty DNS prefix, start index S (2 when configured as 0) and cap C (20 when
  configured as 0), \<open>buildRequestParams\<close> sets one SAN parameter for each of the first
  min(N, C) DNS names (none when C is negative), under pairwise distinct keys
  \<open>{prefix}(S+i)\<close>, the sum being Go's \<open>int\<close> addition; the returned parameters have these
  keys besides the non-empty ones among the new-certificate, subject and get-certificate
  parameter names, and key \<open>{prefix}(S+i)\<close> maps to the \<open>i\<close>-th DNS name provided the
  get-certificate parameter name, which is set last, is not one of the SAN keys.
\<close>

theorem buildRequestParams_san_parameters:
  assumes "cfg = Parameters (config s)" "DNSPrefix cfg \<noteq> ''''"
    and "\<forall>i < san_count cfg csr. GetCertParam cfg \<noteq> san_key cfg i"
  shows "(\<forall>i < san_count cfg csr. buildRequestParams s csr (san_key cfg i) = Some [DNSNames csr ! i])
         \<and> inj_on (san_key cfg) {..<san_count cfg csr}
         \<and> dom (buildRequestParams s csr)
             = {k. k \<noteq> '''' \<and> (k = NewCertParam cfg \<or> k = GetCertParam cfg
                                 \<or> (k = SubjectParam cfg \<and> buildSubjectDN s csr \<noteq> ''''))}
               \<union> san_key cfg ` {..<san_count cfg csr}"
proof (intro conjI allI impI)
  let ?P0 = "(let params = (if NewCertParam cfg \<noteq> ''''
                            then Set Map.empty (NewCertParam cfg) (NewCertValue cfg)
                            else Map.empty)
              in if SubjectParam cfg \<noteq> '''' \<and> buildSubjectDN s csr \<noteq> ''''
                 then Set params (SubjectParam cfg) (buildSubjectDN s csr) else params)"
  let ?P1 = "addDNSParams (DNSPrefix cfg) (dns_start cfg) (dns_cap cfg) 0 (DNSNames csr) ?P0"
  note unfold = buildRequestParams_unfold [OF assms(1,2), of csr]
  {
    fix i
    assume i: "i < san_count cfg csr"
    then have r: "i < length (DNSNames csr)" "int (0 + i) < sint (dns_cap cfg)"
      by (simp_all add: san_in_range)
    from addDNSParams_at [OF r, of "DNSPrefix cfg" "dns_start cfg" ?P0]
    have "?P1 (san_key cfg i) = Some [DNSNames csr ! i]"
      by (simp add: san_key_def)
    moreover from assms(3) i have "GetCertParam cfg \<noteq> san_key cfg i"
      by simp
    ultimately show "buildRequestParams s csr (san_key cfg i) = Some [DNSNames csr ! i]"
      unfolding unfold by (simp add: Set_def)
  }
  show "inj_on (san_key cfg) {..<san_count cfg csr}"
  proof (rule inj_onI)
    fix a b
    assume "a \<in> {..<san_count cfg csr}" "b \<in> {..<san_count cfg csr}"
      and eq: "san_key cfg a = san_key cfg b"
    then have "int a < sint (dns_cap cfg)" "int b < sint (dns_cap cfg)"
      by (simp_all add: san_in_range)
    from dns_key_inj [OF _ this] eq show "a = b"
      by (simp add: san_key_def)
  qed
  have keys: "{DNSPrefix cfg @ Itoa (sint (dns_start cfg + of_nat (0 + j))) | j.
                 j < length (DNSNames csr) \<and> int (0 + j) < sint (dns_cap cfg)}
              = san_key cfg ` {..<san_count cfg csr}"
    by (auto simp: san_key_def san_in_range image_iff)
  have d0: "dom ?P0 = {k. k \<noteq> '''' \<and> (k = NewCertParam cfg
                         \<or> (k = SubjectParam cfg \<and> buildSubjectDN s csr \<noteq> ''''))}"
    by (auto simp: Let_def Set_def)
  have d1: "dom ?P1 = dom ?P0 \<union> san_key cfg ` {..<san_count cfg csr}"
    unfolding dom_addDNSParams keys ..
  show "dom (buildRequestParams s csr)
        = {k. k \<noteq> '''' \<and> (k = NewCertParam cfg \<or> k = GetCertParam cfg
                            \<or> (k = SubjectParam cfg \<and> buildSubjectDN s csr \<noteq> ''''))}
          \<union> san_key cfg ` {..<san_count cfg csr}"
    unfolding unfold
    by (cases "GetCertParam cfg = ''''") (auto simp: Set_def d1 d0 simp del: dom_addDNSParams)
qed

lemma legacy_san:
  "san_count legacy_parameters example_csr = 1 \<and> san_key legacy_parameters 0 = ''DNS2''"
  by (simp add: san_count_def san_key_def legacy_parameters_def example_csr_def dns_cap_def
      dns_start_def Itoa_def digitsOf.simps digitChar_def)

theorem buildRequestParams_san_parameters_witness:
  "legacy_parameters = Parameters (config legacy_signer)
   \<and> DNSPrefix legacy_parameters \<noteq> ''''
   \<and> GetCertParam legacy_parameters \<noteq> san_key legacy_parameters 0
   \<and> san_count legacy_parameters example_csr = 1
   \<and> san_key legacy_parameters 0 = ''DNS2''
   \<and> buildRequestParams legacy_signer example_csr ''DNS2'' = Some [''alt.example.com'']
   \<and> dom (buildRequestParams legacy_signer example_csr) = {''new'', ''subject'', ''DNS2''}"
proof -
  have h1: "legacy_parameters = Parameters (config legacy_signer)"
    by (simp add: legacy_signer_def NewPKISigner_def legacy_config_def)
  have h2: "DNSPrefix legacy_parameters \<noteq> ''''"
    by (simp add: legacy_parameters_def)
  have h3: "\<forall>i < san_count legacy_parameters example_csr.
              GetCertParam legacy_parameters \<noteq> san_key legacy_parameters i"
    using legacy_san by (simp add: legacy_parameters_def)
  have sub: "buildSubjectDN legacy_signer example_csr \<noteq> ''''"
    by (simp add: buildSubjectDN_def legacy_signer_def NewPKISigner_def legacy_config_def
        legacy_parameters_def buildSubjectDNSlash_def slashParts_def example_csr_def)
  have "{k. k \<noteq> '''' \<and> (k = NewCertParam legacy_parameters \<or> k = GetCertParam legacy_parameters
             \<or> (k = SubjectParam legacy_parameters \<and> buildSubjectDN legacy_signer example_csr \<noteq> ''''))}
        = {''new'', ''subject''}"
    using sub by (auto simp: legacy_parameters_def)
  note base = this
  note main = buildRequestParams_san_parameters [OF h1 h2 h3]
  from legacy_san have cnt: "san_count legacy_parameters example_csr = 1"
    and key: "san_key legacy_parameters 0 = ''DNS2''"
    by simp_all
  from main have "\<forall>i < san_count legacy_parameters example_csr.
      buildRequestParams legacy_signer example_csr (san_key legacy_parameters i)
        = Some [DNSNames example_csr ! i]"
    by (rule conjunct1)
  then have "buildRequestParams legacy_signer example_csr (san_key legacy_parameters 0)
        = Some [DNSNames example_csr ! 0]"
    unfolding cnt by simp
  then have v: "buildRequestParams legacy_signer example_csr ''DNS2'' = Some [''alt.example.com'']"
    unfolding key by (simp add: example_csr_def)
  have img: "san_key legacy_parameters ` {..<san_count legacy_parameters example_csr} = {''DNS2''}"
    unfolding cnt using key by (simp add: lessThan_Suc)
  from main have "dom (buildRequestParams legacy_signer example_csr)
      = {''new'', ''subject''} \<union> {''DNS2''}"
    unfolding base img by (rule conjunct2 [THEN conjunct2])
  then have d: "dom (buildRequestParams legacy_signer example_csr) = {''new'', ''subject'', ''DNS2''}"
    by (simp add: insert_commute)
  have g: "GetCertParam legacy_parameters \<noteq> san_key legacy_parameters 0"
    unfolding key by (simp add: legacy_parameters_def)
  from h1 h2 g cnt key v d show ?thesis
    by (intro conjI)
qed

text \<open>
  C4 as stated lets key \<open>{prefix}(S+i)\<close> map to the \<open>i\<close>-th DNS name for every
  configuration. With the get-certificate parameter named \<open>DNS2\<close>, the key \<open>DNS2\<close> of the
  returned parameters holds the empty value, not the first DNS name.
\<close>

theorem buildRequestParams_san_overwritten:
  "DNSPrefix (Parameters (config colliding_signer)) = ''DNS''
   \<and> DNSNames example_csr ! 0 = ''alt.example.com''
   \<and> buildRequestParams colliding_signer example_csr ''DNS2'' = Some ['''']"
  by (simp add: buildRequestParams_def colliding_signer_def NewPKISigner_def legacy_config_def
        legacy_parameters_def example_csr_def buildSubjectDN_def buildSubjectDNSlash_def
        slashParts_def Set_def Itoa_def digitChar_def digitsOf.simps)

subsection \<open>The serialized request of the scenario\<close>

lemma perm3:
  assumes "distinct ks" "set ks = {a, b, c}" "a \<noteq> b" "a \<noteq> c" "b \<noteq> c"
  shows "ks \<in> {[a, b, c], [a, c, b], [b, a, c], [b, c, a], [c, a, b], [c, b, a]}"
proof -
  from assms have "length ks = 3"
    using distinct_card [of ks] by simp
  then obtain x y z where ks: "ks = [x, y, z]"
    by (auto simp: numeral_3_eq_3 length_Suc_conv)
  from assms(2) ks have "x \<in> {a, b, c}" "y \<in> {a, b, c}" "z \<in> {a, b, c}"
    by auto
  moreover from assms(1) ks have "x \<noteq> y" "x \<noteq> z" "y \<noteq> z"
    by auto
  ultimately show ?thesis
    unfolding ks by auto
qed

lemma legacy_requestBody:
  "requestBody w legacy_signer params
   = Join (concat (map (semicolonPart params) (map_range w params))) '';''"
  by (simp add: requestBody_def legacy_signer_def NewPKISigner_def legacy_config_def
        legacy_parameters_def)

lemma legacy_parts:
  "semicolonPart (buildRequestParams legacy_signer example_csr) ''new'' = [''new=1'']"
  "semicolonPart (buildRequestParams legacy_signer example_csr) ''subject''
     = [''subject=/C=US/O=Example/CN=app.example.com'']"
  "semicolonPart (buildRequestParams legacy_signer example_csr) ''DNS2'' = [''DNS2=alt.example.com'']"
  using legacy_params [of None] by (simp_all add: semicolonPart_def example_csr_def)

lemma legacy_dom: "dom (buildRequestParams legacy_signer example_csr) = {''new'', ''subject'', ''DNS2''}"
  using legacy_params [of None] by (auto simp: example_csr_def)

text \<open>
  C5 at a failing input: the configuration and the CSR of the scenario, in a run in
  which the runtime ranges over the parameter map from its second entry on (subject,
  DNS2, new). The builder keeps the parameters in a Go map and serializes them with
  \<open>range\<close>, whose order the language leaves open; the body is then not the string of
  the scenario, which begins with \<open>new=1\<close>.
\<close>

theorem legacy_request_body_other_order:
  "ranges_over [''subject'', ''DNS2'', ''new''] (buildRequestParams legacy_signer example_csr)
   \<and> requestBody (test_world example_csr [''subject'', ''DNS2'', ''new''] one_block_body)
        legacy_signer (buildRequestParams legacy_signer example_csr)
      = ''subject=/C=US/O=Example/CN=app.example.com;DNS2=alt.example.com;new=1''"
  by (auto simp: ranges_over_def legacy_dom legacy_requestBody legacy_parts test_world_def)

text \<open>
  What the code does guarantee for the scenario: whatever the order in which the
  runtime ranges over the parameter map, the serialized body is the three items
  \<open>new=1\<close>, \<open>subject=/C=US/O=Example/CN=app.example.com\<close> and \<open>DNS2=alt.example.com\<close>,
  each once, joined by semicolons; it is the string of the scenario exactly when the
  keys come in the order new, subject, DNS2.
\<close>

theorem legacy_request_body_any_order:
  assumes "ranges_over (map_range w (buildRequestParams legacy_signer example_csr))
             (buildRequestParams legacy_signer example_csr)"
  shows "(\<exists>parts. requestBody w legacy_signer (buildRequestParams legacy_signer example_csr)
                    = Join parts '';''
                \<and> mset parts = {#''new=1'', ''subject=/C=US/O=Example/CN=app.example.com'',
                                  ''DNS2=alt.example.com''#})
         \<and> (requestBody w legacy_signer (buildRequestParams legacy_signer example_csr)
               = ''new=1;subject=/C=US/O=Example/CN=app.example.com;DNS2=alt.example.com''
             \<longleftrightarrow> map_range w (buildRequestParams legacy_signer example_csr)
                   = [''new'', ''subject'', ''DNS2''])"
proof -
  let ?P = "buildRequestParams legacy_signer example_csr"
  let ?ks = "map_range w ?P"
  let ?parts = "concat (map (semicolonPart ?P) ?ks)"
  from assms have "distinct ?ks" "set ?ks = {''new'', ''subject'', ''DNS2''}"
    by (simp_all add: ranges_over_def legacy_dom)
  then have "?ks \<in> {[''new'', ''subject'', ''DNS2''], [''new'', ''DNS2'', ''subject''],
                     [''subject'', ''new'', ''DNS2''], [''subject'', ''DNS2'', ''new''],
                     [''DNS2'', ''new'', ''subject''], [''DNS2'', ''subject'', ''new'']}"
    by (rule perm3) simp_all
  then consider "?ks = [''new'', ''subject'', ''DNS2'']" | "?ks = [''new'', ''DNS2'', ''subject'']"
    | "?ks = [''subject'', ''new'', ''DNS2'']" | "?ks = [''subject'', ''DNS2'', ''new'']"
    | "?ks = [''DNS2'', ''new'', ''subject'']" | "?ks = [''DNS2'', ''subject'', ''new'']"
    by blast
  then have "mset ?parts = {#''new=1'', ''subject=/C=US/O=Example/CN=app.example.com'',
                             ''DNS2=alt.example.com''#}
      \<and> (Join ?parts '';'' = ''new=1;subject=/C=US/O=Example/CN=app.example.com;DNS2=alt.example.com''
           \<longleftrightarrow> ?ks = [''new'', ''subject'', ''DNS2''])"
    by cases (simp_all add: legacy_parts)
  then show ?thesis
    unfolding legacy_requestBody by blast
qed

theorem legacy_request_body_any_order_witness:
  "ranges_over
     (map_range (test_world example_csr [''new'', ''subject'', ''DNS2''] one_block_body)
        (buildRequestParams legacy_signer example_csr))
     (buildRequestParams legacy_signer example_csr)
   \<and> requestBody (test_world example_csr [''new'', ''subject'', ''DNS2''] one_block_body)
        legacy_signer (buildRequestParams legacy_signer example_csr)
      = ''new=1;subject=/C=US/O=Example/CN=app.example.com;DNS2=alt.example.com''"
proof -
  let ?w = "test_world example_csr [''new'', ''subject'', ''DNS2''] one_block_body"
  have r: "map_range ?w (buildRequestParams legacy_signer example_csr) = [''new'', ''subject'', ''DNS2'']"
    by (simp add: test_world_def)
  have h: "ranges_over (map_range ?w (buildRequestParams legacy_signer example_csr))
             (buildRequestParams legacy_signer example_csr)"
    unfolding r by (auto simp: ranges_over_def legacy_dom)
  from legacy_request_body_any_order [OF h] r h show ?thesis
    by blast
qed

subsection \<open>MockCASigner.Sign\<close>










subsection \<open>The legacy endpoint: new and renew\<close>













subsection \<open>The reconciler's no-op paths\<close>









lemma signAndRecord_records_issued_object:
  assumes "Signer_CheckHealth w lib eff certSigner = (None, certSigner')"
    and "Signer_Sign w lib eff certSigner' (Request cr) 365 = Inr (certPEM, chainPEM)"
  shows "snd (signAndRecord w lib cl eff cr certSigner)
         = [CheckHealthCalled, SignCalled (Request cr) 365,
            StatusUpdated (issued_object cr certPEM chainPEM (metav1_Now cl))]"
  using assms
  by (simp add: signAndRecord_def setStatus_def issued_object_def Let_def
      CertificateRequestConditionReady_def ConditionTrue_def)


end
